theory Spec2Isabelle
  imports Main "HOL-Library.Word"
begin

unbundle bit_operations_syntax

section \<open>Machine integers of the driver\<close>

text \<open>
  Go's \<open>int\<close> is modelled as \<open>int\<close>: the functions below only compare it and convert it
  to a narrower type, and the conversions (\<open>int16(n)\<close>, \<open>byte(n)\<close>) are written out as
  \<open>word_of_int\<close>, which truncates as Go does. Fixed-width fields are words; a signed field is
  read with \<open>sint\<close>.
\<close>

type_synonym byte = "8 word"
type_synonym int8 = "8 word"
type_synonym int16 = "16 word"
type_synonym int32 = "32 word"
type_synonym int64 = "64 word"
type_synonym uint16 = "16 word"

definition MaxInt16 :: int where
  "MaxInt16 = 32767"

definition MaxInt32 :: int where
  "MaxInt32 = 2147483647"

definition MaxUint16 :: int where
  "MaxUint16 = 65535"

section \<open>Part header: argument count (protocol, part header)\<close>

record PartHeader =
  PartKind :: int8
  PartAttributes :: int8
  argumentCount :: int16
  bigArgumentCount :: int32
  bufferLength :: int32
  bufferSize :: int32

definition bigNumArgInd :: int where
  "bigNumArgInd = - 1"

datatype part_error = MaxNumArgExceeded int

text \<open>
  \<open>setNumArg\<close>: the \<open>switch\<close> tries \<open>numArg <= math.MaxInt16\<close>, then
  \<open>numArg <= math.MaxInt32\<close>, and falls to \<open>default\<close> (the error) otherwise. The header
  is mutated in place; on the error path it is left as it was.
\<close>

definition setNumArg :: "int \<Rightarrow> PartHeader \<Rightarrow> part_error + PartHeader" where
  "setNumArg numArg h =
     (if numArg \<le> MaxInt16 then
        Inr (h\<lparr>argumentCount := word_of_int numArg, bigArgumentCount := 0\<rparr>)
      else if numArg \<le> MaxInt32 then
        Inr (h\<lparr>argumentCount := word_of_int bigNumArgInd,
                bigArgumentCount := word_of_int numArg\<rparr>)
      else Inl (MaxNumArgExceeded numArg))"

definition numArg :: "PartHeader \<Rightarrow> int" where
  "numArg h =
     (if argumentCount h = word_of_int bigNumArgInd then sint (bigArgumentCount h)
      else sint (argumentCount h))"

section \<open>Connection attributes\<close>

text \<open>
  The attributes written by the setters modelled here. \<open>time.Duration\<close> is an \<open>int64\<close> count
  of nanoseconds; the setters only compare and store it. The read/write mutex around each
  setter does not change what is stored and is left out.
\<close>

record connAttrs =
  a_timeout :: int
  a_bulkSize :: int
  a_fetchSize :: int
  a_lobChunkSize :: int
  a_dfv :: int

definition minTimeout :: int where
  "minTimeout = 0"

definition minBulkSize :: int where
  "minBulkSize = 1"

definition MaxNumArg :: int where
  "MaxNumArg = MaxInt32"

definition maxBulkSize :: int where
  "maxBulkSize = MaxNumArg"

definition minFetchSize :: int where
  "minFetchSize = 1"

definition minLobChunkSize :: int where
  "minLobChunkSize = 128"

definition maxLobChunkSize :: int where
  "maxLobChunkSize = 2 ^ 14"

text \<open>
  Modelled from the spec: the constant \<open>p.DfvLevel8\<close> is declared in a file of the protocol
  package that is not among the sources; the spec gives the default dfv as 8.
\<close>

definition defaultDfv :: int where
  "defaultDfv = 8"

definition setTimeout :: "int \<Rightarrow> connAttrs \<Rightarrow> connAttrs" where
  "setTimeout timeout a =
     (let timeout = (if timeout < minTimeout then minTimeout else timeout)
      in a\<lparr>a_timeout := timeout\<rparr>)"

definition setBulkSize :: "int \<Rightarrow> connAttrs \<Rightarrow> connAttrs" where
  "setBulkSize bulkSize a =
     (let bulkSize =
        (if bulkSize < minBulkSize then minBulkSize
         else if bulkSize > maxBulkSize then maxBulkSize
         else bulkSize)
      in a\<lparr>a_bulkSize := bulkSize\<rparr>)"

definition setFetchSize :: "int \<Rightarrow> connAttrs \<Rightarrow> connAttrs" where
  "setFetchSize fetchSize a =
     (let fetchSize = (if fetchSize < minFetchSize then minFetchSize else fetchSize)
      in a\<lparr>a_fetchSize := fetchSize\<rparr>)"

definition setLobChunkSize :: "int \<Rightarrow> connAttrs \<Rightarrow> connAttrs" where
  "setLobChunkSize lobChunkSize a =
     (let lobChunkSize =
        (if lobChunkSize < minLobChunkSize then minLobChunkSize
         else if lobChunkSize > maxLobChunkSize then maxLobChunkSize
         else lobChunkSize)
      in a\<lparr>a_lobChunkSize := lobChunkSize\<rparr>)"

text \<open>
  \<open>setDfv\<close> asks \<open>p.IsSupportedDfv\<close>, a function of the protocol package that is not
  among the sources: it is the parameter \<open>IsSupportedDfv\<close>.
\<close>

definition setDfv :: "(int \<Rightarrow> bool) \<Rightarrow> int \<Rightarrow> connAttrs \<Rightarrow> connAttrs" where
  "setDfv IsSupportedDfv dfv a =
     (let dfv = (if \<not> IsSupportedDfv dfv then defaultDfv else dfv)
      in a\<lparr>a_dfv := dfv\<rparr>)"

section \<open>Byte codec\<close>

text \<open>
  Modelled from the spec: the package \<open>encoding\<close> (\<open>Encoder\<close>, \<open>Decoder\<close>) is not among
  the sources. The spec (byte codec) gives typed reads and writes of 8/16/32/64-bit integers,
  little-endian by default, with a big-endian path for the \<open>uint16\<close> size of the auth
  sub-protocol, IEEE-754 f64 and raw byte runs; the decoder latches its first error, and every
  later operation is a no-op that returns the zero value. An encoder is the run of bytes it
  has written; \<open>le_bytes n w\<close> are the \<open>n\<close> low bytes of \<open>w\<close>, lowest first.
\<close>

type_synonym Encoder = "byte list"

fun le_bytes :: "nat \<Rightarrow> 'a::len word \<Rightarrow> byte list" where
  "le_bytes 0 w = []"
| "le_bytes (Suc n) w = ucast w # le_bytes n (drop_bit 8 w)"

fun le_word :: "byte list \<Rightarrow> 'a::len word" where
  "le_word [] = 0"
| "le_word (b # bs) = ucast b OR push_bit 8 (le_word bs)"

definition enc_Byte :: "byte \<Rightarrow> Encoder \<Rightarrow> Encoder" where
  "enc_Byte b e = e @ [b]"

definition enc_Bytes :: "byte list \<Rightarrow> Encoder \<Rightarrow> Encoder" where
  "enc_Bytes p e = e @ p"

definition enc_Bool :: "bool \<Rightarrow> Encoder \<Rightarrow> Encoder" where
  "enc_Bool v e = enc_Byte (if v then 1 else 0) e"

definition enc_Int8 :: "int8 \<Rightarrow> Encoder \<Rightarrow> Encoder" where
  "enc_Int8 v e = enc_Byte v e"

definition enc_Int16 :: "int16 \<Rightarrow> Encoder \<Rightarrow> Encoder" where
  "enc_Int16 v e = e @ le_bytes 2 v"

definition enc_Int32 :: "int32 \<Rightarrow> Encoder \<Rightarrow> Encoder" where
  "enc_Int32 v e = e @ le_bytes 4 v"

definition enc_Int64 :: "int64 \<Rightarrow> Encoder \<Rightarrow> Encoder" where
  "enc_Int64 v e = e @ le_bytes 8 v"

text \<open>A \<open>float64\<close> is carried as its IEEE-754 bit pattern (\<open>math.Float64bits\<close>).\<close>

type_synonym float64 = "64 word"

definition enc_Float64 :: "float64 \<Rightarrow> Encoder \<Rightarrow> Encoder" where
  "enc_Float64 v e = e @ le_bytes 8 v"

definition enc_Uint16BigEndian :: "uint16 \<Rightarrow> Encoder \<Rightarrow> Encoder" where
  "enc_Uint16BigEndian v e = e @ rev (le_bytes 2 v)"

record Decoder =
  d_rd :: "byte list"
  d_err :: bool

definition NewDecoder :: "byte list \<Rightarrow> Decoder" where
  "NewDecoder p = \<lparr>d_rd = p, d_err = False\<rparr>"

definition dec_Bytes :: "nat \<Rightarrow> Decoder \<Rightarrow> byte list \<times> Decoder" where
  "dec_Bytes n d =
     (if d_err d then (replicate n 0, d)
      else if length (d_rd d) < n then (replicate n 0, d\<lparr>d_rd := [], d_err := True\<rparr>)
      else (take n (d_rd d), d\<lparr>d_rd := drop n (d_rd d)\<rparr>))"

definition dec_Byte :: "Decoder \<Rightarrow> byte \<times> Decoder" where
  "dec_Byte d = (case dec_Bytes 1 d of (p, d') \<Rightarrow> (le_word p, d'))"

definition dec_Bool :: "Decoder \<Rightarrow> bool \<times> Decoder" where
  "dec_Bool d = (case dec_Byte d of (b, d') \<Rightarrow> (b \<noteq> 0, d'))"

definition dec_Int8 :: "Decoder \<Rightarrow> int8 \<times> Decoder" where
  "dec_Int8 d = dec_Byte d"

definition dec_Int16 :: "Decoder \<Rightarrow> int16 \<times> Decoder" where
  "dec_Int16 d = (case dec_Bytes 2 d of (p, d') \<Rightarrow> (le_word p, d'))"

definition dec_Int32 :: "Decoder \<Rightarrow> int32 \<times> Decoder" where
  "dec_Int32 d = (case dec_Bytes 4 d of (p, d') \<Rightarrow> (le_word p, d'))"

definition dec_Int64 :: "Decoder \<Rightarrow> int64 \<times> Decoder" where
  "dec_Int64 d = (case dec_Bytes 8 d of (p, d') \<Rightarrow> (le_word p, d'))"

definition dec_Float64 :: "Decoder \<Rightarrow> float64 \<times> Decoder" where
  "dec_Float64 d = (case dec_Bytes 8 d of (p, d') \<Rightarrow> (le_word p, d'))"

definition dec_Uint16BigEndian :: "Decoder \<Rightarrow> uint16 \<times> Decoder" where
  "dec_Uint16BigEndian d = (case dec_Bytes 2 d of (p, d') \<Rightarrow> (le_word (rev p), d'))"

section \<open>Auth sub-parameter size\<close>

text \<open>
  \<open>subPrmsSize\<close> is a Go \<open>int\<close>. \<open>encode\<close> returns the error of the \<open>default\<close> branch
  without touching the encoder; \<open>decode\<close> panics on an indicator byte in 246..254.
\<close>

type_synonym subPrmsSize = int

definition maxSubPrmsSize1ByteLen :: int where
  "maxSubPrmsSize1ByteLen = 245"

definition subPrmsSize2ByteIndicator :: byte where
  "subPrmsSize2ByteIndicator = 255"

datatype auth_error = InvalidSubparameterSize int

datatype auth_panic = InvalidSubParameterSizeIndicator byte

definition fieldSize :: "subPrmsSize \<Rightarrow> int" where
  "fieldSize s = (if s > maxSubPrmsSize1ByteLen then 3 else 1)"

definition subPrmsSize_encode :: "subPrmsSize \<Rightarrow> Encoder \<Rightarrow> auth_error option \<times> Encoder" where
  "subPrmsSize_encode s e =
     (if s \<le> maxSubPrmsSize1ByteLen then (None, enc_Byte (word_of_int s) e)
      else if s \<le> MaxUint16 then
        (None, enc_Uint16BigEndian (word_of_int s) (enc_Byte subPrmsSize2ByteIndicator e))
      else (Some (InvalidSubparameterSize s), e))"

definition subPrmsSize_decode :: "Decoder \<Rightarrow> auth_panic + (subPrmsSize \<times> Decoder)" where
  "subPrmsSize_decode d =
     (case dec_Byte d of (b, d1) \<Rightarrow>
        if uint b \<le> maxSubPrmsSize1ByteLen then Inr (uint b, d1)
        else if b = subPrmsSize2ByteIndicator then
          (case dec_Uint16BigEndian d1 of (w, d2) \<Rightarrow> Inr (uint w, d2))
        else Inl (InvalidSubParameterSizeIndicator b))"

section \<open>Parameter fields\<close>

type_synonym parameterOptions = int8

definition poMandatory :: parameterOptions where
  "poMandatory = 0x01"

definition poOptional :: parameterOptions where
  "poOptional = 0x02"

definition poDefault :: parameterOptions where
  "poDefault = 0x04"

record ParameterField =
  FieldName :: string
  Offset :: "32 word"
  f_length :: int16
  f_fraction :: int16
  f_parameterOptions :: parameterOptions
  TC :: int8
  Mode :: int8

definition Nullable :: "ParameterField \<Rightarrow> bool" where
  "Nullable f = (f_parameterOptions f = poOptional)"

text \<open>
  \<open>parameterOptions.String\<close> lists the name of every option whose bit is set
  (\<open>(k & option) != 0\<close>): the membership test of the options bitmask.
\<close>

definition hasOption :: "parameterOptions \<Rightarrow> parameterOptions \<Rightarrow> bool" where
  "hasOption k option = (k AND option \<noteq> 0)"

section \<open>Connect options: option types\<close>

text \<open>
  A connect-option value is a Go \<open>interface{}\<close>; \<open>optValue\<close> lists the dynamic types the
  option types handle, and \<open>VOther\<close> stands for a value of any other type. A Go string is its
  run of bytes. A type assertion \<open>v.(T)\<close> on a value of another type panics, as does
  \<open>make([]byte, l)\<close> with a negative \<open>l\<close>.
\<close>

datatype optValue =
  VBool bool
| VInt8 int8
| VInt32 int32
| VInt64 int64
| VFloat64 float64
| VString "byte list"
| VBytes "byte list"
| VOther

datatype optType =
  optBooleanType
| optTinyintType
| optIntegerType
| optBigintType
| optDoubleType
| optStringType
| optBstringType

datatype opt_panic = TypeAssertionFailed | TypeNotImplemented | MakeSliceLenOutOfRange

text \<open>
  Modelled from the spec: the field size constants of the package \<open>encoding\<close> are not among
  the sources; they are the byte widths of the codec's 8, 32 and 64-bit integers and of an
  f64, and one byte for a boolean.
\<close>

definition BooleanFieldSize :: int where
  "BooleanFieldSize = 1"

definition TinyintFieldSize :: int where
  "TinyintFieldSize = 1"

definition IntegerFieldSize :: int where
  "IntegerFieldSize = 4"

definition BigintFieldSize :: int where
  "BigintFieldSize = 8"

definition DoubleFieldSize :: int where
  "DoubleFieldSize = 8"

fun getOptType :: "optValue \<Rightarrow> opt_panic + optType" where
  "getOptType (VBool v) = Inr optBooleanType"
| "getOptType (VInt8 v) = Inr optTinyintType"
| "getOptType (VInt32 v) = Inr optIntegerType"
| "getOptType (VInt64 v) = Inr optBigintType"
| "getOptType (VFloat64 v) = Inr optDoubleType"
| "getOptType (VString v) = Inr optStringType"
| "getOptType (VBytes v) = Inr optBstringType"
| "getOptType VOther = Inl TypeNotImplemented"

fun opt_size :: "optType \<Rightarrow> optValue \<Rightarrow> opt_panic + int" where
  "opt_size optBooleanType v = Inr BooleanFieldSize"
| "opt_size optTinyintType v = Inr TinyintFieldSize"
| "opt_size optIntegerType v = Inr IntegerFieldSize"
| "opt_size optBigintType v = Inr BigintFieldSize"
| "opt_size optDoubleType v = Inr DoubleFieldSize"
| "opt_size optStringType (VString s) = Inr (2 + int (length s))"
| "opt_size optStringType v = Inl TypeAssertionFailed"
| "opt_size optBstringType (VBytes b) = Inr (2 + int (length b))"
| "opt_size optBstringType v = Inl TypeAssertionFailed"

fun opt_encode :: "optType \<Rightarrow> optValue \<Rightarrow> Encoder \<Rightarrow> opt_panic + Encoder" where
  "opt_encode optBooleanType (VBool v) e = Inr (enc_Bool v e)"
| "opt_encode optTinyintType (VInt8 v) e = Inr (enc_Int8 v e)"
| "opt_encode optIntegerType (VInt32 v) e = Inr (enc_Int32 v e)"
| "opt_encode optBigintType (VInt64 v) e = Inr (enc_Int64 v e)"
| "opt_encode optDoubleType (VFloat64 v) e = Inr (enc_Float64 v e)"
| "opt_encode optStringType (VString s) e =
     Inr (enc_Bytes s (enc_Int16 (word_of_int (int (length s))) e))"
| "opt_encode optBstringType (VBytes b) e =
     Inr (enc_Bytes b (enc_Int16 (word_of_int (int (length b))) e))"
| "opt_encode t v e = Inl TypeAssertionFailed"

fun opt_decode :: "optType \<Rightarrow> Decoder \<Rightarrow> opt_panic + (optValue \<times> Decoder)" where
  "opt_decode optBooleanType d = (case dec_Bool d of (v, d') \<Rightarrow> Inr (VBool v, d'))"
| "opt_decode optTinyintType d = (case dec_Int8 d of (v, d') \<Rightarrow> Inr (VInt8 v, d'))"
| "opt_decode optIntegerType d = (case dec_Int32 d of (v, d') \<Rightarrow> Inr (VInt32 v, d'))"
| "opt_decode optBigintType d = (case dec_Int64 d of (v, d') \<Rightarrow> Inr (VInt64 v, d'))"
| "opt_decode optDoubleType d = (case dec_Float64 d of (v, d') \<Rightarrow> Inr (VFloat64 v, d'))"
| "opt_decode optStringType d =
     (case dec_Int16 d of (l, d1) \<Rightarrow>
        if sint l < 0 then Inl MakeSliceLenOutOfRange
        else (case dec_Bytes (nat (sint l)) d1 of (b, d2) \<Rightarrow> Inr (VString b, d2)))"
| "opt_decode optBstringType d =
     (case dec_Int16 d of (l, d1) \<Rightarrow>
        if sint l < 0 then Inl MakeSliceLenOutOfRange
        else (case dec_Bytes (nat (sint l)) d1 of (b, d2) \<Rightarrow> Inr (VBytes b, d2)))"

text \<open>The values the round trip is stated for: the seven supported types, a string or byte
  slice being at most 32767 bytes long.\<close>

fun supportedOptValue :: "optValue \<Rightarrow> bool" where
  "supportedOptValue (VString s) = (length s \<le> 32767)"
| "supportedOptValue (VBytes b) = (length b \<le> 32767)"
| "supportedOptValue VOther = False"
| "supportedOptValue v = True"

section \<open>Connection: errors, lock and transport\<close>

text \<open>
  The Go \<open>error\<close> values the connection code returns or stores. \<open>HdbError\<close> is the
  driver's \<open>Error\<close> interface (an error reported by the database), the only kind
  \<open>isBad\<close> tolerates; \<open>NetError\<close> is an error of the socket; \<open>OtherError\<close> any other.
\<close>

datatype go_error =
  ErrBadConn
| errCancelled
| errClosed
| ErrNestedQuery
| ContextError
| HdbError int
| NetError nat
| NoRowsAffectedError
| NotFlushedError nat
| IncompleteRunesError
| InvalidLobLocatorError "64 word" "64 word"
| OtherError nat

text \<open>
  A call on a mutex that is held does not return until the mutex is released. The model runs
  one call at a time, so such a call has the outcome \<open>Blocked\<close>; unlocking a mutex that is
  not locked is a fatal run-time error of Go, the outcome \<open>Fatal\<close>.
\<close>

datatype 'a outcome = Blocked | Fatal | Done 'a

definition lrNestedQuery :: int64 where
  "lrNestedQuery = 1"

record connLock =
  lockReason :: int64
  mu :: bool
  connMu :: bool

definition tryLock :: "int64 \<Rightarrow> connLock \<Rightarrow> (go_error option \<times> connLock) outcome" where
  "tryLock reason l =
     (if mu l then Blocked
      else if lockReason l = lrNestedQuery then Done (Some ErrNestedQuery, l)
      else if connMu l then Blocked
      else Done (None, l\<lparr>connMu := True, lockReason := reason\<rparr>))"

definition lock :: "connLock \<Rightarrow> connLock outcome" where
  "lock l = (if connMu l then Blocked else Done (l\<lparr>connMu := True\<rparr>))"

definition unlock :: "connLock \<Rightarrow> connLock outcome" where
  "unlock l = (if connMu l then Done (l\<lparr>lockReason := 0, connMu := False\<rparr>) else Fatal)"

text \<open>
  The locking of \<open>QueryContext\<close>: it takes the lock with \<open>tryLock(lrNestedQuery)\<close> and, by
  its deferred function, releases it on return unless the rows it returns took \<open>c.unlock\<close>
  as their close callback (\<open>hasRowsCloser\<close>). The query itself runs between the two; what
  it decides for the lock is only \<open>hasRowsCloser\<close>, the parameter.
\<close>

definition QueryContext_locking :: "bool \<Rightarrow> connLock \<Rightarrow> (go_error option \<times> connLock) outcome" where
  "QueryContext_locking hasRowsCloser l =
     (case tryLock lrNestedQuery l of
        Blocked \<Rightarrow> Blocked
      | Fatal \<Rightarrow> Fatal
      | Done (Some err, l1) \<Rightarrow> Done (Some err, l1)
      | Done (None, l1) \<Rightarrow>
          if hasRowsCloser then Done (None, l1)
          else (case unlock l1 of
                  Blocked \<Rightarrow> Blocked
                | Fatal \<Rightarrow> Fatal
                | Done l2 \<Rightarrow> Done (None, l2)))"

text \<open>
  \<open>dbConn\<close> wraps the socket \<open>conn net.Conn\<close>, an interface of the Go library: its state is
  \<open>sock\<close>, of any type, and its methods are the fields of \<open>netConn\<close>, each taking the socket
  state and returning the next one. A read returns the bytes it read (\<open>n\<close> is their number),
  a write the number of bytes written. The metrics counters and the log line are left out.
\<close>

record 'n netConn =
  SetReadDeadline :: "'n \<Rightarrow> go_error option \<times> 'n"
  SetWriteDeadline :: "'n \<Rightarrow> go_error option \<times> 'n"
  nc_Read :: "nat \<Rightarrow> 'n \<Rightarrow> (byte list \<times> go_error option) \<times> 'n"
  nc_Write :: "byte list \<Rightarrow> 'n \<Rightarrow> (nat \<times> go_error option) \<times> 'n"
  nc_Close :: "'n \<Rightarrow> go_error option \<times> 'n"

record 'n dbConn =
  cancelled :: int32
  sock :: 'n
  db_lastError :: "go_error option"
  db_closed :: bool

definition cancel :: "'n dbConn \<Rightarrow> 'n dbConn" where
  "cancel c = c\<lparr>cancelled := 1, db_lastError := Some errCancelled\<rparr>"

definition close :: "'n netConn \<Rightarrow> 'n dbConn \<Rightarrow> go_error option \<times> 'n dbConn" where
  "close nc c =
     (case nc_Close nc (sock c) of
        (err, s') \<Rightarrow> (err, c\<lparr>db_closed := True, db_lastError := Some errClosed, sock := s'\<rparr>))"

definition Read :: "'n netConn \<Rightarrow> nat \<Rightarrow> 'n dbConn \<Rightarrow> (byte list \<times> go_error option) \<times> 'n dbConn" where
  "Read nc len c =
     (if cancelled c = 1 then (([], Some ErrBadConn), c)
      else (case SetReadDeadline nc (sock c) of
              (Some err, s1) \<Rightarrow>
                (([], Some ErrBadConn), c\<lparr>sock := s1, db_lastError := Some err\<rparr>)
            | (None, s1) \<Rightarrow>
                (case nc_Read nc len s1 of
                   ((b, None), s2) \<Rightarrow> ((b, None), c\<lparr>sock := s2\<rparr>)
                 | ((b, Some err), s2) \<Rightarrow>
                     ((b, Some ErrBadConn), c\<lparr>sock := s2, db_lastError := Some err\<rparr>))))"

definition Write :: "'n netConn \<Rightarrow> byte list \<Rightarrow> 'n dbConn \<Rightarrow> (nat \<times> go_error option) \<times> 'n dbConn" where
  "Write nc b c =
     (if cancelled c = 1 then ((0, Some ErrBadConn), c)
      else (case SetWriteDeadline nc (sock c) of
              (Some err, s1) \<Rightarrow>
                ((0, Some ErrBadConn), c\<lparr>sock := s1, db_lastError := Some err\<rparr>)
            | (None, s1) \<Rightarrow>
                (case nc_Write nc b s1 of
                   ((n, None), s2) \<Rightarrow> ((n, None), c\<lparr>sock := s2\<rparr>)
                 | ((n, Some err), s2) \<Rightarrow>
                     ((n, Some ErrBadConn), c\<lparr>sock := s2, db_lastError := Some err\<rparr>))))"

text \<open>
  The fields of \<open>conn\<close> that \<open>isBad\<close> and \<open>IsValid\<close> read: the embedded lock, the
  transport and the last error of the connection.
\<close>

record 'n conn =
  c_connLock :: connLock
  c_dbConn :: "'n dbConn"
  c_lastError :: "go_error option"

fun isHdbError :: "go_error \<Rightarrow> bool" where
  "isHdbError (HdbError code) = True"
| "isHdbError e = False"

definition isBad :: "'n conn \<Rightarrow> bool" where
  "isBad c =
     (if db_lastError (c_dbConn c) \<noteq> None then True
      else (case c_lastError c of
              Some e \<Rightarrow> (if \<not> isHdbError e then True else False)
            | None \<Rightarrow> False))"

definition IsValid :: "'n conn \<Rightarrow> (bool \<times> 'n conn) outcome" where
  "IsValid c =
     (case lock (c_connLock c) of
        Blocked \<Rightarrow> Blocked
      | Fatal \<Rightarrow> Fatal
      | Done l1 \<Rightarrow>
          (let r = \<not> isBad (c\<lparr>c_connLock := l1\<rparr>)
           in (case unlock l1 of
                 Blocked \<Rightarrow> Blocked
               | Fatal \<Rightarrow> Fatal
               | Done l2 \<Rightarrow> Done (r, c\<lparr>c_connLock := l2\<rparr>))))"

text \<open>
  What can happen to the transport after a cancellation: any sequence of its own methods.
  \<open>db_step\<close> runs one of them and keeps the transport it leaves.
\<close>

datatype db_op = OpRead nat | OpWrite "byte list" | OpCancel | OpClose

fun db_step :: "'n netConn \<Rightarrow> 'n dbConn \<Rightarrow> db_op \<Rightarrow> 'n dbConn" where
  "db_step nc c (OpRead len) = snd (Read nc len c)"
| "db_step nc c (OpWrite b) = snd (Write nc b c)"
| "db_step nc c OpCancel = cancel c"
| "db_step nc c OpClose = snd (close nc c)"

definition db_run :: "'n netConn \<Rightarrow> 'n dbConn \<Rightarrow> db_op list \<Rightarrow> 'n dbConn" where
  "db_run nc c ops = foldl (db_step nc) c ops"

text \<open>What a cancellation leaves behind: the flag and a transport error.\<close>

definition cancelled_inv :: "'n dbConn \<Rightarrow> bool" where
  "cancelled_inv c = (cancelled c = 1 \<and> db_lastError c \<noteq> None)"

text \<open>
  A socket for running the transport on concrete inputs: its state counts the calls made on
  it; reads return zero bytes and nothing fails.
\<close>

definition countingSocket :: "nat netConn" where
  "countingSocket =
     \<lparr>SetReadDeadline = (\<lambda>s. (None, Suc s)),
      SetWriteDeadline = (\<lambda>s. (None, Suc s)),
      nc_Read = (\<lambda>len s. ((replicate len 0, None), Suc s)),
      nc_Write = (\<lambda>b s. ((length b, None), Suc s)),
      nc_Close = (\<lambda>s. (None, Suc s))\<rparr>"

section \<open>DSN parsing\<close>

text \<open>
  \<open>parseDSN\<close> calls the Go library: \<open>url.Parse\<close>, \<open>strconv.Atoi\<close>,
  \<open>strconv.ParseBool\<close> and the \<open>%d\<close> of \<open>fmt.Sprintf\<close>. They are the fields of
  \<open>go_lib\<close>, parameters of the model. \<open>u.Query()\<close> is a Go map from key to values and the
  loop ranges over it in an order the language leaves open: the field \<open>Query\<close> of the parsed
  URL lists the entries in the order the loop visits them. The map is what the library makes
  of the query string, not the string itself: \<open>Query()\<close> leaves out every pair whose key or
  value it cannot unescape, so \<open>parseDSN\<close> never sees such a pair.
\<close>

record url_Error =
  ue_Op :: string
  ue_URL :: string
  ue_Err :: string

record URL =
  Host :: string
  User :: "(string \<times> string option) option"
  Query :: "(string \<times> string list) list"

record go_lib =
  url_Parse :: "string \<Rightarrow> url_Error + URL"
  Atoi :: "string \<Rightarrow> int option"
  ParseBool :: "string \<Rightarrow> bool option"
  format_d :: "int \<Rightarrow> string"

definition DSNDefaultSchema :: string where
  "DSNDefaultSchema = ''defaultSchema''"

definition DSNTimeout :: string where
  "DSNTimeout = ''timeout''"

definition DSNPingInterval :: string where
  "DSNPingInterval = ''pingInterval''"

definition DSNTLSRootCAFile :: string where
  "DSNTLSRootCAFile = ''TLSRootCAFile''"

definition DSNTLSServerName :: string where
  "DSNTLSServerName = ''TLSServerName''"

definition DSNTLSInsecureSkipVerify :: string where
  "DSNTLSInsecureSkipVerify = ''TLSInsecureSkipVerify''"

record TLSPrms =
  ServerName :: string
  InsecureSkipVerify :: bool
  RootCAFiles :: "string list"

definition emptyTLSPrms :: TLSPrms where
  "emptyTLSPrms = \<lparr>ServerName = [], InsecureSkipVerify = False, RootCAFiles = []\<rparr>"

record DSN =
  dsn_host :: string
  dsn_username :: string
  dsn_password :: string
  dsn_defaultSchema :: string
  dsn_timeout :: int64
  dsn_pingInterval :: int64
  dsn_tls :: "TLSPrms option"

record ParseError =
  pe_s :: string
  pe_err :: "url_Error option"

text \<open>\<open>ParseError.Error\<close>: the message of the wrapped error's cause if there is one, else \<open>s\<close>.\<close>

definition ParseError_Error :: "ParseError \<Rightarrow> string" where
  "ParseError_Error e = (case pe_err e of Some ue \<Rightarrow> ue_Err ue | None \<Rightarrow> pe_s e)"

definition parameterNotSupportedError :: "string \<Rightarrow> ParseError" where
  "parameterNotSupportedError k =
     \<lparr>pe_s = ''parameter '' @ k @ '' is not supported'', pe_err = None\<rparr>"

definition invalidNumberOfParametersError :: "go_lib \<Rightarrow> string \<Rightarrow> int \<Rightarrow> int \<Rightarrow> ParseError" where
  "invalidNumberOfParametersError L k act exp =
     \<lparr>pe_s = ''invalid number of parameters for '' @ k @ '' '' @ format_d L act @
              '' - expected '' @ format_d L exp,
      pe_err = None\<rparr>"

definition invalidNumberOfParametersRangeError ::
    "go_lib \<Rightarrow> string \<Rightarrow> int \<Rightarrow> int \<Rightarrow> int \<Rightarrow> ParseError" where
  "invalidNumberOfParametersRangeError L k act mn mx =
     \<lparr>pe_s = ''invalid number of parameters for '' @ k @ '' '' @ format_d L act @
              '' - expected '' @ format_d L mn @ '' - '' @ format_d L mx,
      pe_err = None\<rparr>"

definition invalidNumberOfParametersMinError :: "go_lib \<Rightarrow> string \<Rightarrow> int \<Rightarrow> int \<Rightarrow> ParseError" where
  "invalidNumberOfParametersMinError L k act mn =
     \<lparr>pe_s = ''invalid number of parameters for '' @ k @ '' '' @ format_d L act @
              '' - expected at least '' @ format_d L mn,
      pe_err = None\<rparr>"

definition parseError :: "string \<Rightarrow> string \<Rightarrow> ParseError" where
  "parseError k v = \<lparr>pe_s = ''failed to parse '' @ k @ '': '' @ v, pe_err = None\<rparr>"

definition second :: int64 where
  "second = 1000000000"

definition tlsOrNew :: "DSN \<Rightarrow> TLSPrms" where
  "tlsOrNew dsn = (case dsn_tls dsn of None \<Rightarrow> emptyTLSPrms | Some t \<Rightarrow> t)"

text \<open>The body of the loop: the \<open>switch\<close> on one key \<open>k\<close> with its values \<open>v\<close>.\<close>

definition parseDSN_param :: "go_lib \<Rightarrow> string \<Rightarrow> string list \<Rightarrow> DSN \<Rightarrow> ParseError + DSN" where
  "parseDSN_param L k v dsn =
     (if k = DSNDefaultSchema then
        (if length v \<noteq> 1 then Inl (invalidNumberOfParametersError L k (int (length v)) 1)
         else Inr (dsn\<lparr>dsn_defaultSchema := hd v\<rparr>))
      else if k = DSNTimeout then
        (if length v \<noteq> 1 then Inl (invalidNumberOfParametersError L k (int (length v)) 1)
         else (case Atoi L (hd v) of
                 None \<Rightarrow> Inl (parseError k (hd v))
               | Some t \<Rightarrow> Inr (dsn\<lparr>dsn_timeout := word_of_int t * second\<rparr>)))
      else if k = DSNPingInterval then
        (if length v \<noteq> 1 then Inl (invalidNumberOfParametersError L k (int (length v)) 1)
         else (case Atoi L (hd v) of
                 None \<Rightarrow> Inl (parseError k (hd v))
               | Some t \<Rightarrow> Inr (dsn\<lparr>dsn_pingInterval := word_of_int t * second\<rparr>)))
      else if k = DSNTLSServerName then
        (if length v \<noteq> 1 then Inl (invalidNumberOfParametersError L k (int (length v)) 1)
         else Inr (dsn\<lparr>dsn_tls := Some ((tlsOrNew dsn)\<lparr>ServerName := hd v\<rparr>)\<rparr>))
      else if k = DSNTLSInsecureSkipVerify then
        (if length v > 1 then
           Inl (invalidNumberOfParametersRangeError L k (int (length v)) 0 1)
         else if length v > 0 \<and> hd v \<noteq> [] then
           (case ParseBool L (hd v) of
              None \<Rightarrow> Inl (parseError k (hd v))
            | Some b \<Rightarrow> Inr (dsn\<lparr>dsn_tls := Some ((tlsOrNew dsn)\<lparr>InsecureSkipVerify := b\<rparr>)\<rparr>))
         else Inr (dsn\<lparr>dsn_tls := Some ((tlsOrNew dsn)\<lparr>InsecureSkipVerify := True\<rparr>)\<rparr>))
      else if k = DSNTLSRootCAFile then
        (if length v = 0 then Inl (invalidNumberOfParametersMinError L k (int (length v)) 1)
         else Inr (dsn\<lparr>dsn_tls := Some ((tlsOrNew dsn)\<lparr>RootCAFiles := v\<rparr>)\<rparr>))
      else Inl (parameterNotSupportedError k))"

fun parseDSN_query :: "go_lib \<Rightarrow> (string \<times> string list) list \<Rightarrow> DSN \<Rightarrow> ParseError + DSN" where
  "parseDSN_query L [] dsn = Inr dsn"
| "parseDSN_query L ((k, v) # rest) dsn =
     (case parseDSN_param L k v dsn of
        Inl e \<Rightarrow> Inl e
      | Inr dsn' \<Rightarrow> parseDSN_query L rest dsn')"

definition newDSN :: "URL \<Rightarrow> DSN" where
  "newDSN u =
     (let dsn = \<lparr>dsn_host = Host u, dsn_username = [], dsn_password = [],
                 dsn_defaultSchema = [], dsn_timeout = 0, dsn_pingInterval = 0,
                 dsn_tls = None\<rparr>
      in (case User u of
            None \<Rightarrow> dsn
          | Some (username, password) \<Rightarrow>
              dsn\<lparr>dsn_username := username,
                  dsn_password := (case password of None \<Rightarrow> [] | Some pw \<Rightarrow> pw)\<rparr>))"

definition parseDSN :: "go_lib \<Rightarrow> string \<Rightarrow> ParseError + DSN" where
  "parseDSN L s =
     (if s = [] then Inl \<lparr>pe_s = ''invalid parameter - DSN is empty'', pe_err = None\<rparr>
      else (case url_Parse L s of
              Inl err \<Rightarrow> Inl \<lparr>pe_s = [], pe_err = Some err\<rparr>
            | Inr u \<Rightarrow> parseDSN_query L (Query u) (newDSN u)))"

definition recognisedDSNKeys :: "string set" where
  "recognisedDSNKeys =
     {DSNDefaultSchema, DSNTimeout, DSNPingInterval, DSNTLSServerName,
      DSNTLSInsecureSkipVerify, DSNTLSRootCAFile}"

text \<open>
  A library for running \<open>parseDSN\<close> on \<open>hdb://h?timeout=x&foo=1\<close>: \<open>url.Parse\<close> splits
  that string into the host \<open>h\<close> and the two query entries, visited here with \<open>timeout\<close>
  first; \<open>Atoi\<close> knows the numerals the examples use and rejects \<open>x\<close>. No example
  reaches an error that formats a number, so \<open>format_d\<close> only covers 0, 1 and 2. The same
  for \<open>hdb://h?timeout=60&foo=1\<close>, and for \<open>hdb://h?foo=%zz\<close>, whose only pair has a
  value that cannot be unescaped and is left out of the map.
\<close>

definition exampleLib :: go_lib where
  "exampleLib =
     \<lparr>url_Parse = (\<lambda>s. if s = ''hdb://h?timeout=x&foo=1''
                        then Inr \<lparr>Host = ''h'', User = None,
                                  Query = [(''timeout'', [''x'']), (''foo'', [''1''])]\<rparr>
                        else if s = ''hdb://h?foo=1''
                        then Inr \<lparr>Host = ''h'', User = None, Query = [(''foo'', [''1''])]\<rparr>
                        else if s = ''hdb://h?timeout=60&foo=1''
                        then Inr \<lparr>Host = ''h'', User = None,
                                  Query = [(''timeout'', [''60'']), (''foo'', [''1''])]\<rparr>
                        else if s = ''hdb://h?foo=%zz''
                        then Inr \<lparr>Host = ''h'', User = None, Query = []\<rparr>
                        else Inl \<lparr>ue_Op = ''parse'', ue_URL = s,
                                  ue_Err = ''missing protocol scheme''\<rparr>),
      Atoi = (\<lambda>s. if s = ''1'' then Some 1 else if s = ''60'' then Some 60 else None),
      ParseBool = (\<lambda>s. if s = ''true'' then Some True
                        else if s = ''false'' then Some False else None),
      format_d = (\<lambda>i. if i = 0 then ''0'' else if i = 1 then ''1'' else ''2'')\<rparr>"

section \<open>Statement execution\<close>

text \<open>
  \<open>driver.Result\<close> of the Go library has the two implementations the driver returns:
  \<open>driver.RowsAffected(n)\<close>, whose method \<open>RowsAffected\<close> returns \<open>(n, nil)\<close>, and
  \<open>driver.ResultNoRows\<close>, whose method returns 0 and an error. A Go function that returns
  \<open>(driver.Result, error)\<close> returns the pair \<open>(r, err)\<close>, either of which may be \<open>nil\<close>;
  calling a method on a \<open>nil\<close> result is a run-time panic.
\<close>

datatype driver_Result = RowsAffected int64 | ResultNoRows

fun Result_RowsAffected :: "driver_Result \<Rightarrow> int64 \<times> go_error option" where
  "Result_RowsAffected (RowsAffected n) = (n, None)"
| "Result_RowsAffected ResultNoRows = (0, Some NoRowsAffectedError)"

datatype 'a run = Panic | Return 'a

text \<open>
  An argument of an execute is a LOB descriptor (\<open>*p.LobInDescr\<close>) or any other value.
  The calls that leave the function are parameters, each passing on a state \<open>'w\<close> of the
  connection and the server: \<open>IsLob\<close> is \<open>TypeCode.IsLob\<close> (not among the sources),
  \<open>FetchNext\<close> reads the next chunk of a LOB and returns \<open>(last, err)\<close>, and \<open>e_exec\<close> is
  \<open>conn._exec\<close>, one Execute round trip, which returns \<open>(nil, err)\<close> or \<open>(r, nil)\<close>.
\<close>

datatype ('l, 'v) arg = LobInDescr 'l | Value 'v

record ('l, 'v, 'w) exec_env =
  IsLob :: "int8 \<Rightarrow> bool"
  FetchNext :: "'l \<Rightarrow> 'w \<Rightarrow> (bool \<times> go_error option) \<times> 'w"
  e_exec :: "('l, 'v) arg list \<Rightarrow> bool \<Rightarrow> bool \<Rightarrow> 'w \<Rightarrow> (go_error + driver_Result) \<times> 'w"

record prepareResult =
  parameterFields :: "ParameterField list"

fun fetchFirstLobChunk_loop ::
    "('l, 'v, 'w) exec_env \<Rightarrow> ('l, 'v) arg list \<Rightarrow> bool \<Rightarrow> 'w \<Rightarrow> (bool \<times> go_error option) \<times> 'w" where
  "fetchFirstLobChunk_loop E [] hasNext w = ((hasNext, None), w)"
| "fetchFirstLobChunk_loop E (Value v # rest) hasNext w = fetchFirstLobChunk_loop E rest hasNext w"
| "fetchFirstLobChunk_loop E (LobInDescr l # rest) hasNext w =
     (case FetchNext E l w of
        ((isLast, err), w1) \<Rightarrow>
          (let hasNext = (if \<not> isLast then True else hasNext)
           in (case err of
                 Some e \<Rightarrow> ((hasNext, Some e), w1)
               | None \<Rightarrow> fetchFirstLobChunk_loop E rest hasNext w1)))"

definition conn_fetchFirstLobChunk ::
    "('l, 'v, 'w) exec_env \<Rightarrow> ('l, 'v) arg list \<Rightarrow> 'w \<Rightarrow> (bool \<times> go_error option) \<times> 'w" where
  "conn_fetchFirstLobChunk E nvargs w = fetchFirstLobChunk_loop E nvargs False w"

text \<open>The slice expression \<open>a[from:to]\<close>, for \<open>from \<le> to \<le> len(a)\<close>.\<close>

definition slice :: "'a list \<Rightarrow> nat \<Rightarrow> nat \<Rightarrow> 'a list" where
  "slice a from to = take (to - from) (drop from a)"

text \<open>
  The row loop of \<open>_execBulk\<close>, with its variables \<open>i\<close>, \<open>lastFrom\<close> and
  \<open>totRowsAffected\<close>. After \<open>r, err := c._exec(...)\<close> the statement
  \<open>if rowsAffected, err := r.RowsAffected(); err != nil\<close> calls the method on \<open>r\<close> before
  the outer \<open>err\<close> is looked at: when \<open>_exec\<close> failed, \<open>r\<close> is \<open>nil\<close> and the call
  panics. The inner \<open>err\<close> is the one of \<open>RowsAffected()\<close>; the count is added when it is
  not \<open>nil\<close>.
\<close>

function execBulk_rows ::
    "('l, 'v, 'w) exec_env \<Rightarrow> ('l, 'v) arg list \<Rightarrow> bool \<Rightarrow> nat \<Rightarrow> nat \<Rightarrow> nat \<Rightarrow> nat \<Rightarrow> int64 \<Rightarrow> 'w
       \<Rightarrow> (driver_Result option \<times> go_error option) run \<times> 'w" where
  "execBulk_rows E nvargs commit numColumns numRows i lastFrom totRowsAffected w =
     (if i < numRows then
        (let from = i * numColumns; to = from + numColumns
         in (case conn_fetchFirstLobChunk E (slice nvargs from to) w of
               ((hasNext, Some err), w1) \<Rightarrow> (Return (None, Some err), w1)
             | ((hasNext, None), w1) \<Rightarrow>
                 if hasNext \<or> i = numRows - 1 then
                   (case e_exec E (slice nvargs lastFrom to) True commit w1 of
                      (Inl err, w2) \<Rightarrow> (Panic, w2)
                    | (Inr r, w2) \<Rightarrow>
                        (case Result_RowsAffected r of
                           (rowsAffected, err') \<Rightarrow>
                             execBulk_rows E nvargs commit numColumns numRows (i + 1) to
                               (if err' \<noteq> None then totRowsAffected + rowsAffected
                                else totRowsAffected) w2))
                 else execBulk_rows E nvargs commit numColumns numRows (i + 1) lastFrom
                        totRowsAffected w1))
      else (Return (Some (RowsAffected totRowsAffected), None), w))"
  by pat_completeness auto
termination
  by (relation "measure (\<lambda>(E, nvargs, commit, numColumns, numRows, i, lastFrom, tot, w). numRows - i)")
    auto

declare execBulk_rows.simps [simp del]

definition conn_execBulk ::
    "('l, 'v, 'w) exec_env \<Rightarrow> prepareResult \<Rightarrow> ('l, 'v) arg list \<Rightarrow> bool \<Rightarrow> 'w
       \<Rightarrow> (driver_Result option \<times> go_error option) run \<times> 'w" where
  "conn_execBulk E pr nvargs commit w =
     (let hasLob = list_ex (\<lambda>f. IsLob E (TC f)) (parameterFields pr)
      in if \<not> hasLob \<or> length (parameterFields pr) = length nvargs then
           (case e_exec E nvargs hasLob commit w of
              (Inl err, w1) \<Rightarrow> (Return (None, Some err), w1)
            | (Inr r, w1) \<Rightarrow> (Return (Some r, None), w1))
         else
           (let numColumns = length (parameterFields pr);
                numRows = length nvargs div numColumns
            in execBulk_rows E nvargs commit numColumns numRows 0 0 0 w))"

text \<open>
  \<open>execMany\<close>. The composite argument is an \<open>execManyer\<close>: its number of rows and
  \<open>fill\<close>, which converts the rows \<open>startRow..endRow-1\<close> into the arguments of one execute
  or fails. \<open>s_exec\<close> is \<open>stmt.exec\<close>, which returns \<open>(r, nil)\<close> or an error. The statement's
  \<open>bulkSize\<close> is the connection attribute, never negative; with \<open>bulkSize = 0\<close> the division
  panics. \<open>pending\<close> is \<open>len(s.nvargs)\<close>, the rows of an unflushed bulk.
\<close>

record 'nv execManyer =
  numRow :: nat
  fill :: "nat \<Rightarrow> nat \<Rightarrow> go_error + 'nv"

function execMany_loop ::
    "'nv execManyer \<Rightarrow> ('nv \<Rightarrow> 'w \<Rightarrow> (go_error + driver_Result) \<times> 'w) \<Rightarrow> nat \<Rightarrow> nat \<Rightarrow> nat \<Rightarrow> int64
       \<Rightarrow> 'w \<Rightarrow> (driver_Result \<times> go_error option) \<times> 'w" where
  "execMany_loop variant s_exec bulkSize numPack p totalRowsAffected w =
     (if p < numPack then
        (let startRow = p * bulkSize;
             endRow = min (startRow + bulkSize) (numRow variant)
         in (case fill variant startRow endRow of
               Inl err \<Rightarrow> ((RowsAffected totalRowsAffected, Some err), w)
             | Inr nvargs \<Rightarrow>
                 (case s_exec nvargs w of
                    (Inl err, w1) \<Rightarrow> ((RowsAffected totalRowsAffected, Some err), w1)
                  | (Inr r, w1) \<Rightarrow>
                      (case Result_RowsAffected r of
                         (n, Some err) \<Rightarrow> ((RowsAffected (totalRowsAffected + n), Some err), w1)
                       | (n, None) \<Rightarrow>
                           execMany_loop variant s_exec bulkSize numPack (p + 1)
                             (totalRowsAffected + n) w1))))
      else ((RowsAffected totalRowsAffected, None), w))"
  by pat_completeness auto
termination
  by (relation "measure (\<lambda>(variant, s_exec, bulkSize, numPack, p, tot, w). numPack - p)") auto

declare execMany_loop.simps [simp del]

definition stmt_execMany ::
    "nat \<Rightarrow> nat \<Rightarrow> 'nv execManyer \<Rightarrow> ('nv \<Rightarrow> 'w \<Rightarrow> (go_error + driver_Result) \<times> 'w) \<Rightarrow> 'w
       \<Rightarrow> (driver_Result \<times> go_error option) run \<times> 'w" where
  "stmt_execMany pending bulkSize variant s_exec w =
     (if pending \<noteq> 0 then (Return (ResultNoRows, Some (NotFlushedError pending)), w)
      else if bulkSize = 0 then (Panic, w)
      else
        (let numPack = numRow variant div bulkSize;
             numPack = (if numRow variant mod bulkSize \<noteq> 0 then numPack + 1 else numPack)
         in (case execMany_loop variant s_exec bulkSize numPack 0 0 w of
               (res, w') \<Rightarrow> (Return res, w'))))"

text \<open>
  What the specification says \<open>execMany\<close> does, in its words: the packages are the row ranges
  \<open>[p * bulkSize, min (p * bulkSize + bulkSize) numRow)\<close> for \<open>p\<close> below
  \<open>ceil (numRow / bulkSize)\<close>; they are executed in that order, until one fails; the result
  is the list of the affected-row counts of the packages that succeeded, and the error of the
  one that failed. A package fails when \<open>fill\<close> or the execute fails, or when its result
  has no affected-row count (\<open>ResultNoRows\<close>).
\<close>

definition packages :: "nat \<Rightarrow> nat \<Rightarrow> (nat \<times> nat) list" where
  "packages n bulkSize =
     map (\<lambda>p. (p * bulkSize, min (p * bulkSize + bulkSize) n))
       [0..<(n + bulkSize - 1) div bulkSize]"

fun run_packages ::
    "'nv execManyer \<Rightarrow> ('nv \<Rightarrow> 'w \<Rightarrow> (go_error + driver_Result) \<times> 'w) \<Rightarrow> (nat \<times> nat) list \<Rightarrow> 'w
       \<Rightarrow> (int64 list \<times> go_error option) \<times> 'w" where
  "run_packages variant s_exec [] w = (([], None), w)"
| "run_packages variant s_exec ((startRow, endRow) # rest) w =
     (case fill variant startRow endRow of
        Inl err \<Rightarrow> (([], Some err), w)
      | Inr nvargs \<Rightarrow>
          (case s_exec nvargs w of
             (Inl err, w1) \<Rightarrow> (([], Some err), w1)
           | (Inr ResultNoRows, w1) \<Rightarrow> (([], Some NoRowsAffectedError), w1)
           | (Inr (RowsAffected n), w1) \<Rightarrow>
               (case run_packages variant s_exec rest w1 of
                  ((ns, err), w2) \<Rightarrow> ((n # ns, err), w2))))"

text \<open>
  A server for running \<open>_execBulk\<close> on concrete rows: the state is the list of executes
  received; each execute affects one row per argument it carries (the statement has one
  column). A LOB is the number of chunks still to fetch; \<open>FetchNext\<close> reports the last chunk
  when at most one is left.
\<close>

definition countingServer :: "(nat, nat, nat list list) exec_env" where
  "countingServer =
     \<lparr>IsLob = (\<lambda>tc. tc = 27),
      FetchNext = (\<lambda>l w. ((l \<le> 1, None), w)),
      e_exec = (\<lambda>nvargs hasLob commit w.
                 (Inr (RowsAffected (word_of_nat (length nvargs))),
                  w @ [map (\<lambda>a. case a of LobInDescr l \<Rightarrow> l | Value v \<Rightarrow> v) nvargs]))\<rparr>"

definition failingServer :: "(nat, nat, nat list list) exec_env" where
  "failingServer = countingServer\<lparr>e_exec := (\<lambda>nvargs hasLob commit w. (Inl (HdbError 301), w))\<rparr>"

definition blobField :: ParameterField where
  "blobField = \<lparr>FieldName = ''B'', Offset = 0, f_length = 0, f_fraction = 0,
                 f_parameterOptions = 0x02, TC = 27, Mode = 1\<rparr>"

section \<open>LOB download\<close>

text \<open>
  The descriptor of a LOB to download and the request and reply parts of one read. Offsets and
  character counts are Go \<open>int64\<close>; they count the bytes or characters of the data and are
  modelled as \<open>int\<close>. The chunk size is converted with \<open>int32(...)\<close>, written
  \<open>word_of_int\<close>.
\<close>

record LobOutDescr =
  lo_ID :: "64 word"
  lo_IsLastData :: bool
  lo_IsCharBased :: bool
  lo_NumChar :: int
  lo_B :: "byte list"

record ReadLobRequest =
  rq_ID :: "64 word"
  rq_Ofs :: int
  rq_ChunkSize :: int32

record ReadLobReply =
  rp_ID :: "64 word"
  rp_IsLastData :: bool
  rp_B :: "byte list"

text \<open>
  What \<open>decodeLobs\<close> calls outside itself, as parameters over a state \<open>'w\<close> of the
  connection, the server and the writer: \<open>wr_Write\<close> is \<open>wr.Write\<close>, \<open>wrcl_Write\<close> the
  write through the CESU-8 transformer put around \<open>wr\<close>, \<open>exchange\<close> one round trip (the
  request written, the reply parts iterated: an error, or the \<open>ReadLobReply\<close> part if the
  reply has one), \<open>pipe_Close\<close> the closing of \<open>wr\<close> when it is the write end of a pipe.
  \<open>FullRune\<close> and \<open>DecodeRune\<close> belong to the package \<open>cesu8\<close>, which is not among the
  sources; of \<open>DecodeRune\<close> only the size is used.
\<close>

record 'w lob_env =
  wr_Write :: "byte list \<Rightarrow> 'w \<Rightarrow> go_error option \<times> 'w"
  wrcl_Write :: "byte list \<Rightarrow> 'w \<Rightarrow> go_error option \<times> 'w"
  wr_isPipe :: bool
  pipe_Close :: "go_error option \<Rightarrow> 'w \<Rightarrow> 'w"
  exchange :: "ReadLobRequest \<Rightarrow> 'w \<Rightarrow> (go_error + ReadLobReply option) \<times> 'w"
  FullRune :: "byte list \<Rightarrow> bool"
  DecodeRune :: "byte list \<Rightarrow> nat"

text \<open>
  Modelled from the spec: the constant \<open>cesu8.CESUMax\<close> is declared in the package
  \<open>cesu8\<close>, not among the sources; the spec gives six bytes for the encoding of a surrogate
  pair, the longest CESU-8 encoding.
\<close>

definition CESUMax :: nat where
  "CESUMax = 6"

text \<open>
  The character counter of a char-based LOB. \<open>b = b[size:]\<close> panics when \<open>size\<close> exceeds
  the length, and with \<open>size = 0\<close> the loop would not advance: it does not return (\<open>None\<close>).
\<close>

function countChars_cesu8 ::
    "(byte list \<Rightarrow> bool) \<Rightarrow> (byte list \<Rightarrow> nat) \<Rightarrow> byte list \<Rightarrow> int \<Rightarrow> (go_error + int) run option" where
  "countChars_cesu8 fullRune decodeRune b numChars =
     (if length b > 0 then
        (if \<not> fullRune b then Some (Return (Inl IncompleteRunesError))
         else (let size = decodeRune b
               in if size > length b then Some Panic
                  else if size = 0 then None
                  else countChars_cesu8 fullRune decodeRune (drop size b)
                         (if size = CESUMax then numChars + 1 + 1 else numChars + 1)))
      else Some (Return (Inr numChars)))"
  by pat_completeness auto
termination
  by (relation "measure (\<lambda>(fullRune, decodeRune, b, numChars). length b)") auto

declare countChars_cesu8.simps [simp del]

definition countChars_bytes :: "byte list \<Rightarrow> (go_error + int) run option" where
  "countChars_bytes b = Some (Return (Inr (int (length b))))"

definition chunkSize :: "int \<Rightarrow> int \<Rightarrow> int \<Rightarrow> int32" where
  "chunkSize lobChunkSize numChar ofs =
     (let chunkSize = numChar - ofs
      in if chunkSize > lobChunkSize then word_of_int lobChunkSize else word_of_int chunkSize)"

text \<open>
  The loop \<open>for !eof\<close> of \<open>_decodeLobs\<close>, with its variables \<open>lobRequest\<close>, \<open>lobReply\<close>,
  \<open>ofs\<close> and \<open>eof\<close>. It runs as long as the server does not send the last data; the first
  argument bounds the number of iterations, and \<open>None\<close> says that the bound was reached.
\<close>

fun decodeLobs_loop ::
    "nat \<Rightarrow> 'w lob_env \<Rightarrow> (byte list \<Rightarrow> 'w \<Rightarrow> go_error option \<times> 'w) \<Rightarrow>
     (byte list \<Rightarrow> (go_error + int) run option) \<Rightarrow> int \<Rightarrow> LobOutDescr \<Rightarrow>
     ReadLobRequest \<Rightarrow> ReadLobReply \<Rightarrow> int \<Rightarrow> bool \<Rightarrow> 'w \<Rightarrow> (go_error option run \<times> 'w) option" where
  "decodeLobs_loop 0 E wr countChars lobChunkSize descr lobRequest lobReply ofs eof w = None"
| "decodeLobs_loop (Suc n) E wr countChars lobChunkSize descr lobRequest lobReply ofs eof w =
     (if eof then Some (Return None, w)
      else
        (let lobRequest = lobRequest\<lparr>rq_Ofs := rq_Ofs lobRequest + ofs\<rparr>;
             lobRequest = lobRequest\<lparr>rq_ChunkSize := chunkSize lobChunkSize (lo_NumChar descr) ofs\<rparr>
         in (case exchange E lobRequest w of
               (Inl err, w1) \<Rightarrow> Some (Return (Some err), w1)
             | (Inr part, w1) \<Rightarrow>
                 (let lobReply = (case part of None \<Rightarrow> lobReply | Some reply \<Rightarrow> reply)
                  in if rp_ID lobReply \<noteq> rq_ID lobRequest then
                       Some (Return (Some (InvalidLobLocatorError (rp_ID lobReply)
                                             (rq_ID lobRequest))), w1)
                     else
                       (case wr (rp_B lobReply) w1 of
                          (Some err, w2) \<Rightarrow> Some (Return (Some err), w2)
                        | (None, w2) \<Rightarrow>
                            (case countChars (rp_B lobReply) of
                               None \<Rightarrow> None
                             | Some Panic \<Rightarrow> Some (Panic, w2)
                             | Some (Return (Inl err)) \<Rightarrow> Some (Return (Some err), w2)
                             | Some (Return (Inr ofs')) \<Rightarrow>
                                 decodeLobs_loop n E wr countChars lobChunkSize descr lobRequest
                                   lobReply ofs' (rp_IsLastData lobReply) w2))))))"

definition conn_decodeLobs_inner ::
    "nat \<Rightarrow> 'w lob_env \<Rightarrow> (byte list \<Rightarrow> 'w \<Rightarrow> go_error option \<times> 'w) \<Rightarrow>
     (byte list \<Rightarrow> (go_error + int) run option) \<Rightarrow> int \<Rightarrow> LobOutDescr \<Rightarrow> 'w
       \<Rightarrow> (go_error option run \<times> 'w) option" where
  "conn_decodeLobs_inner n E wr countChars lobChunkSize descr w =
     (case wr (lo_B descr) w of
        (Some err, w1) \<Rightarrow> Some (Return (Some err), w1)
      | (None, w1) \<Rightarrow>
          (let lobRequest = \<lparr>rq_ID = lo_ID descr, rq_Ofs = 0, rq_ChunkSize = 0\<rparr>;
               lobReply = \<lparr>rp_ID = 0, rp_IsLastData = False, rp_B = []\<rparr>;
               eof = lo_IsLastData descr
           in (case countChars (lo_B descr) of
                 None \<Rightarrow> None
               | Some Panic \<Rightarrow> Some (Panic, w1)
               | Some (Return (Inl err)) \<Rightarrow> Some (Return (Some err), w1)
               | Some (Return (Inr ofs)) \<Rightarrow>
                   decodeLobs_loop n E wr countChars lobChunkSize descr lobRequest lobReply
                     ofs eof w1)))"

definition conn_decodeLobs ::
    "nat \<Rightarrow> 'w lob_env \<Rightarrow> int \<Rightarrow> LobOutDescr \<Rightarrow> 'w \<Rightarrow> (go_error option run \<times> 'w) option" where
  "conn_decodeLobs n E lobChunkSize descr w =
     (case (if lo_IsCharBased descr then
              conn_decodeLobs_inner n E (wrcl_Write E)
                (\<lambda>b. countChars_cesu8 (FullRune E) (DecodeRune E) b 0) lobChunkSize descr w
            else conn_decodeLobs_inner n E (wr_Write E) countChars_bytes lobChunkSize descr w) of
        None \<Rightarrow> None
      | Some (Panic, w1) \<Rightarrow> Some (Panic, w1)
      | Some (Return err, w1) \<Rightarrow>
          Some (Return err, if wr_isPipe E then pipe_Close E err w1 else w1))"

text \<open>
  A server for running a download: the state is the list of the requests received and the
  number of bytes written to the writer. It holds a byte-based LOB of 300 bytes, of which the
  descriptor carries the first 100; it answers the first request with 128 bytes and the second
  with the remaining 72, marked as the last data.
\<close>

definition lobServer :: "(ReadLobRequest list \<times> nat) lob_env" where
  "lobServer =
     \<lparr>wr_Write = (\<lambda>b (reqs, written). (None, (reqs, written + length b))),
      wrcl_Write = (\<lambda>b (reqs, written). (None, (reqs, written + length b))),
      wr_isPipe = False,
      pipe_Close = (\<lambda>err w. w),
      exchange = (\<lambda>rq (reqs, written).
                    (Inr (Some \<lparr>rp_ID = rq_ID rq,
                                rp_IsLastData = (reqs \<noteq> []),
                                rp_B = replicate (if reqs = [] then 128 else 72) 65\<rparr>),
                     (reqs @ [rq], written))),
      FullRune = (\<lambda>b. True),
      DecodeRune = (\<lambda>b. 1)\<rparr>"

definition blobDescr :: LobOutDescr where
  "blobDescr = \<lparr>lo_ID = 7, lo_IsLastData = False, lo_IsCharBased = False, lo_NumChar = 300,
                 lo_B = replicate 100 65\<rparr>"

section \<open>Theorems\<close>

subsection \<open>Part header argument count\<close>

lemma sint_int16_of_small:
  assumes "0 \<le> n" "n \<le> 32767"
  shows "sint (word_of_int n :: 16 word) = n"
  using assms by (simp add: sint_sbintrunc' signed_take_bit_int_eq_self)

lemma sint_int32_of_small:
  assumes "0 \<le> n" "n \<le> 2147483647"
  shows "sint (word_of_int n :: 32 word) = n"
  using assms by (simp add: sint_sbintrunc' signed_take_bit_int_eq_self)

lemma int16_of_small_neq_ind:
  assumes "0 \<le> n" "n \<le> 32767"
  shows "(word_of_int n :: 16 word) \<noteq> - 1"
proof
  assume "(word_of_int n :: 16 word) = - 1"
  then have "sint (word_of_int n :: 16 word) = sint (- 1 :: 16 word)" by simp
  with assms show False by (simp add: sint_int16_of_small)
qed

text \<open>
  C4. For every argument count \<open>n\<close> with \<open>0 \<le> n \<le> 2^31 - 1\<close>, \<open>setNumArg n\<close> succeeds and
  \<open>numArg\<close> of the header it leaves returns \<open>n\<close>; the 16-bit \<open>argumentCount\<close> field holds
  \<open>n\<close> iff \<open>n \<le> 32767\<close>; for \<open>n > 32767\<close> the field is the sentinel \<open>-1\<close> and the 32-bit
  \<open>bigArgumentCount\<close> field holds \<open>n\<close>; for every \<open>n > 2^31 - 1\<close> \<open>setNumArg\<close> returns an
  error.
\<close>

theorem setNumArg_numArg:
  "(0 \<le> n \<and> n \<le> 2 ^ 31 - 1 \<longrightarrow>
      (\<exists>h'. setNumArg n h = Inr h' \<and> numArg h' = n \<and>
            (sint (argumentCount h') = n \<longleftrightarrow> n \<le> 32767) \<and>
            (n > 32767 \<longrightarrow> sint (argumentCount h') = - 1 \<and> sint (bigArgumentCount h') = n)))
   \<and> (n > 2 ^ 31 - 1 \<longrightarrow> (\<exists>e. setNumArg n h = Inl e))"
proof (intro conjI impI)
  assume r: "0 \<le> n \<and> n \<le> 2 ^ 31 - 1"
  show "\<exists>h'. setNumArg n h = Inr h' \<and> numArg h' = n \<and>
            (sint (argumentCount h') = n \<longleftrightarrow> n \<le> 32767) \<and>
            (n > 32767 \<longrightarrow> sint (argumentCount h') = - 1 \<and> sint (bigArgumentCount h') = n)"
  proof (cases "n \<le> 32767")
    case True
    with r show ?thesis
      by (simp add: setNumArg_def numArg_def MaxInt16_def bigNumArgInd_def
          sint_int16_of_small int16_of_small_neq_ind)
  next
    case False
    with r show ?thesis
      by (simp add: setNumArg_def numArg_def MaxInt16_def MaxInt32_def bigNumArgInd_def
          sint_int32_of_small)
  qed
next
  assume "n > 2 ^ 31 - 1"
  then show "\<exists>e. setNumArg n h = Inl e"
    by (simp add: setNumArg_def MaxInt16_def MaxInt32_def)
qed

theorem setNumArg_numArg_witness:
  "(\<exists>h'. setNumArg 40000 \<lparr>PartKind = 0, PartAttributes = 0, argumentCount = 7,
            bigArgumentCount = 9, bufferLength = 0, bufferSize = 0\<rparr> = Inr h' \<and>
         numArg h' = 40000 \<and> sint (argumentCount h') = - 1 \<and>
         sint (bigArgumentCount h') = 40000)"
  using setNumArg_numArg [of 40000 "\<lparr>PartKind = 0, PartAttributes = 0, argumentCount = 7,
            bigArgumentCount = 9, bufferLength = 0, bufferSize = 0\<rparr>"]
  by auto

subsection \<open>Byte order\<close>

lemma le_bytes_2: "le_bytes 2 w = [ucast w, ucast (drop_bit 8 w)]"
proof -
  have "(2::nat) = Suc (Suc 0)" by simp
  then show ?thesis by (simp only: le_bytes.simps)
qed

lemma le_bytes_4:
  "le_bytes 4 w = [ucast w, ucast (drop_bit 8 w), ucast (drop_bit 8 (drop_bit 8 w)),
     ucast (drop_bit 8 (drop_bit 8 (drop_bit 8 w)))]"
proof -
  have "(4::nat) = Suc (Suc (Suc (Suc 0)))" by simp
  then show ?thesis by (simp only: le_bytes.simps)
qed

lemma le_bytes_8:
  "le_bytes 8 w = [ucast w, ucast (drop_bit 8 w), ucast (drop_bit 8 (drop_bit 8 w)),
     ucast (drop_bit 8 (drop_bit 8 (drop_bit 8 w))),
     ucast (drop_bit 8 (drop_bit 8 (drop_bit 8 (drop_bit 8 w)))),
     ucast (drop_bit 8 (drop_bit 8 (drop_bit 8 (drop_bit 8 (drop_bit 8 w))))),
     ucast (drop_bit 8 (drop_bit 8 (drop_bit 8 (drop_bit 8 (drop_bit 8 (drop_bit 8 w)))))),
     ucast (drop_bit 8 (drop_bit 8 (drop_bit 8 (drop_bit 8 (drop_bit 8 (drop_bit 8
       (drop_bit 8 w)))))))]"
proof -
  have "(8::nat) = Suc (Suc (Suc (Suc (Suc (Suc (Suc (Suc 0)))))))" by simp
  then show ?thesis by (simp only: le_bytes.simps)
qed

lemma length_le_bytes: "length (le_bytes n w) = n"
  by (induction n arbitrary: w) simp_all

lemma low_byte_or_rest:
  "(ucast (ucast (w::'a::len word) :: byte) :: 'a word) OR
     push_bit 8 (take_bit (8 * n) (drop_bit 8 w)) = take_bit (8 * Suc n) w"
  by (rule bit_word_eqI) (auto simp add: bit_simps)

lemma le_word_le_bytes: "(le_word (le_bytes n w) :: 'a::len word) = take_bit (8 * n) w"
proof (induction n arbitrary: w)
  case 0
  show ?case by simp
next
  case (Suc n)
  show ?case using low_byte_or_rest [of w n] Suc by simp
qed

lemma le_word_le_bytes_full:
  assumes "LENGTH('a::len) \<le> 8 * n"
  shows "(le_word (le_bytes n w) :: 'a word) = w"
  using assms by (simp add: le_word_le_bytes take_bit_word_eq_self)

lemma le_word_single: "(le_word [b] :: byte) = b"
  by simp

lemma dec_Bytes_exact:
  "dec_Bytes (length p) (NewDecoder (p @ rest)) = (p, NewDecoder rest)"
  by (simp add: dec_Bytes_def NewDecoder_def)

lemma dec_Bytes_le_bytes:
  "dec_Bytes n (NewDecoder (le_bytes n w @ rest)) = (le_bytes n w, NewDecoder rest)"
  using dec_Bytes_exact [of "le_bytes n w" rest] by (simp add: length_le_bytes)

lemma dec_Byte_cons: "dec_Byte (NewDecoder (b # rest)) = (b, NewDecoder rest)"
  using dec_Bytes_exact [of "[b]" rest] by (simp add: dec_Byte_def)

lemma dec_Uint16BigEndian_enc:
  "dec_Uint16BigEndian (NewDecoder (rev (le_bytes 2 w) @ rest)) = (w, NewDecoder rest)"
proof -
  have "dec_Bytes 2 (NewDecoder (rev (le_bytes 2 w) @ rest)) = (rev (le_bytes 2 w), NewDecoder rest)"
    using dec_Bytes_exact [of "rev (le_bytes 2 w)" rest] by (simp add: length_le_bytes)
  then show ?thesis
    by (simp add: dec_Uint16BigEndian_def le_word_le_bytes_full)
qed

subsection \<open>Auth sub-parameter size\<close>

lemma uint_byte_of_small:
  assumes "0 \<le> n" "n \<le> 255"
  shows "uint (word_of_int n :: byte) = n"
  using assms by (simp add: uint_word_of_int_eq take_bit_int_eq_self)

lemma uint_uint16_of_small:
  assumes "0 \<le> n" "n \<le> 65535"
  shows "uint (word_of_int n :: uint16) = n"
  using assms by (simp add: uint_word_of_int_eq take_bit_int_eq_self)

text \<open>
  C3. For every \<open>n\<close> in \<open>[0, 65535]\<close>, decoding the encoding of the size \<open>n\<close> yields \<open>n\<close>
  again (and consumes exactly the bytes written); the encoding is the one-byte form iff
  \<open>n \<le> 245\<close>, and otherwise the byte 255 followed by the big-endian \<open>uint16\<close>; for every
  \<open>n > 65535\<close> the encoder returns an error and writes nothing.
\<close>

theorem subPrmsSize_roundtrip:
  "(0 \<le> n \<and> n \<le> 65535 \<longrightarrow>
      (\<exists>p. subPrmsSize_encode n e = (None, e @ p) \<and>
           subPrmsSize_decode (NewDecoder (p @ rest)) = Inr (n, NewDecoder rest) \<and>
           (length p = 1 \<longleftrightarrow> n \<le> 245) \<and>
           (n \<le> 245 \<longrightarrow> p = [word_of_int n]) \<and>
           (n > 245 \<longrightarrow> p = [255, word_of_int (n div 256), word_of_int (n mod 256)])))
   \<and> (n > 65535 \<longrightarrow> (\<exists>err. subPrmsSize_encode n e = (Some err, e)))"
proof (intro conjI impI)
  assume r: "0 \<le> n \<and> n \<le> 65535"
  show "\<exists>p. subPrmsSize_encode n e = (None, e @ p) \<and>
           subPrmsSize_decode (NewDecoder (p @ rest)) = Inr (n, NewDecoder rest) \<and>
           (length p = 1 \<longleftrightarrow> n \<le> 245) \<and>
           (n \<le> 245 \<longrightarrow> p = [word_of_int n]) \<and>
           (n > 245 \<longrightarrow> p = [255, word_of_int (n div 256), word_of_int (n mod 256)])"
  proof (cases "n \<le> 245")
    case True
    with r have u: "uint (word_of_int n :: byte) = n"
      by (simp add: uint_byte_of_small)
    have "subPrmsSize_encode n e = (None, e @ [word_of_int n])"
      using True by (simp add: subPrmsSize_encode_def maxSubPrmsSize1ByteLen_def enc_Byte_def)
    moreover have "subPrmsSize_decode (NewDecoder ([word_of_int n] @ rest)) = Inr (n, NewDecoder rest)"
      using True u by (simp add: subPrmsSize_decode_def dec_Byte_cons maxSubPrmsSize1ByteLen_def)
    ultimately show ?thesis using True by auto
  next
    case False
    let ?w = "word_of_int n :: uint16"
    let ?p = "255 # rev (le_bytes 2 ?w)"
    from r have u: "uint ?w = n" by (simp add: uint_uint16_of_small)
    have enc: "subPrmsSize_encode n e = (None, e @ ?p)"
      using False r
      by (simp add: subPrmsSize_encode_def maxSubPrmsSize1ByteLen_def MaxUint16_def
          enc_Byte_def enc_Uint16BigEndian_def subPrmsSize2ByteIndicator_def)
    have dec: "subPrmsSize_decode (NewDecoder (?p @ rest)) = Inr (n, NewDecoder rest)"
      using u
      by (simp add: subPrmsSize_decode_def dec_Byte_cons maxSubPrmsSize1ByteLen_def
          subPrmsSize2ByteIndicator_def dec_Uint16BigEndian_enc)
    have hi: "(ucast (drop_bit 8 ?w) :: byte) = word_of_int (n div 256)"
      using u
      by (simp add: word_eq_iff_unsigned [where ?'a = int] unsigned_ucast_eq unsigned_drop_bit_eq
          uint_word_of_int_eq take_bit_eq_mod drop_bit_eq_div uint_div)
    have lo: "(ucast ?w :: byte) = word_of_int (n mod 256)"
      using u
      by (simp add: word_eq_iff_unsigned [where ?'a = int] unsigned_ucast_eq
          uint_word_of_int_eq take_bit_eq_mod)
    have shape: "?p = [255, word_of_int (n div 256), word_of_int (n mod 256)]"
      by (simp add: le_bytes_2 hi lo)
    show ?thesis using enc dec False shape by (intro exI [of _ ?p]) (simp add: length_le_bytes)
  qed
next
  assume "n > 65535"
  then show "\<exists>err. subPrmsSize_encode n e = (Some err, e)"
    by (simp add: subPrmsSize_encode_def maxSubPrmsSize1ByteLen_def MaxUint16_def)
qed

theorem subPrmsSize_roundtrip_witness:
  "subPrmsSize_encode 1000 [] = (None, [255, 3, 232]) \<and>
   subPrmsSize_decode (NewDecoder [255, 3, 232, 7]) = Inr (1000, NewDecoder [7]) \<and>
   subPrmsSize_encode 245 [] = (None, [245]) \<and>
   (\<exists>err. subPrmsSize_encode 65536 [] = (Some err, []))"
  using subPrmsSize_roundtrip [of 1000 "[]" "[7]"] subPrmsSize_roundtrip [of 245 "[]" "[]"]
    subPrmsSize_roundtrip [of 65536 "[]" "[]"]
  by auto

subsection \<open>Connect-option values\<close>

lemma dec_Int16_enc:
  "dec_Int16 (NewDecoder (le_bytes 2 w @ rest)) = (w, NewDecoder rest)"
  by (simp add: dec_Int16_def dec_Bytes_le_bytes le_word_le_bytes_full)

lemma dec_Int32_enc:
  "dec_Int32 (NewDecoder (le_bytes 4 w @ rest)) = (w, NewDecoder rest)"
  by (simp add: dec_Int32_def dec_Bytes_le_bytes le_word_le_bytes_full)

lemma dec_Int64_enc:
  "dec_Int64 (NewDecoder (le_bytes 8 w @ rest)) = (w, NewDecoder rest)"
  by (simp add: dec_Int64_def dec_Bytes_le_bytes le_word_le_bytes_full)

lemma dec_Float64_enc:
  "dec_Float64 (NewDecoder (le_bytes 8 w @ rest)) = (w, NewDecoder rest)"
  by (simp add: dec_Float64_def dec_Bytes_le_bytes le_word_le_bytes_full)

lemma dec_Bool_enc:
  "dec_Bool (NewDecoder ((if v then 1 else 0) # rest)) = (v, NewDecoder rest)"
  by (simp add: dec_Bool_def dec_Byte_cons)

lemma sint_len_int16:
  assumes "length s \<le> 32767"
  shows "sint (word_of_nat (length s) :: int16) = int (length s)"
  using assms sint_int16_of_small [of "int (length s)"] by simp

text \<open>
  C10. For every connect-option value \<open>v\<close> of a supported type (bool, int8, int32, int64,
  float64, a string or a byte slice of at most 32767 bytes), encoding \<open>v\<close> with the option
  type \<open>getOptType v\<close> appends some bytes \<open>p\<close>, the length of \<open>p\<close> is the \<open>size\<close> that the
  option type reports for \<open>v\<close>, and decoding \<open>p\<close> with the same option type yields \<open>v\<close>
  again, consuming exactly \<open>p\<close>. A float64 is compared by its bit pattern.
\<close>

theorem optType_roundtrip:
  assumes "supportedOptValue v"
  shows "\<exists>t p. getOptType v = Inr t \<and> opt_encode t v e = Inr (e @ p) \<and>
           opt_size t v = Inr (int (length p)) \<and>
           opt_decode t (NewDecoder (p @ rest)) = Inr (v, NewDecoder rest)"
proof (cases v)
  case (VBool b)
  then show ?thesis
    by (simp add: enc_Bool_def enc_Byte_def BooleanFieldSize_def dec_Bool_enc)
next
  case (VInt8 w)
  then show ?thesis
    by (simp add: enc_Int8_def enc_Byte_def TinyintFieldSize_def dec_Int8_def dec_Byte_cons)
next
  case (VInt32 w)
  then show ?thesis
    by (simp add: enc_Int32_def IntegerFieldSize_def dec_Int32_enc length_le_bytes)
next
  case (VInt64 w)
  then show ?thesis
    by (simp add: enc_Int64_def BigintFieldSize_def dec_Int64_enc length_le_bytes)
next
  case (VFloat64 w)
  then show ?thesis
    by (simp add: enc_Float64_def DoubleFieldSize_def dec_Float64_enc length_le_bytes)
next
  case (VString s)
  with assms have len: "length s \<le> 32767" by simp
  show ?thesis
    using VString sint_len_int16 [OF len]
    by (simp add: enc_Bytes_def enc_Int16_def length_le_bytes dec_Int16_enc dec_Bytes_exact)
next
  case (VBytes s)
  with assms have len: "length s \<le> 32767" by simp
  show ?thesis
    using VBytes sint_len_int16 [OF len]
    by (simp add: enc_Bytes_def enc_Int16_def length_le_bytes dec_Int16_enc dec_Bytes_exact)
next
  case VOther
  with assms show ?thesis by simp
qed

theorem optType_roundtrip_witness:
  "supportedOptValue (VString [104, 100, 98]) \<and>
   opt_encode optStringType (VString [104, 100, 98]) [] = Inr [3, 0, 104, 100, 98] \<and>
   opt_size optStringType (VString [104, 100, 98]) = Inr 5 \<and>
   opt_decode optStringType (NewDecoder [3, 0, 104, 100, 98, 9]) =
     Inr (VString [104, 100, 98], NewDecoder [9])"
  using optType_roundtrip [of "VString [104, 100, 98]" "[]" "[9]"]
  by (auto simp add: enc_Bytes_def enc_Int16_def le_bytes_2)

subsection \<open>Nullable\<close>

text \<open>
  C9 (the code departs from the specification). A field whose options are \<open>optional | default\<close>
  (0x06) includes the \<open>optional\<close> flag, and \<open>Nullable\<close> returns false for it: the method
  compares the whole bitmask with \<open>poOptional\<close>. It returns true exactly when the options are
  \<open>optional\<close> alone.
\<close>

theorem Nullable_optional_default:
  "hasOption 0x06 poOptional \<and>
   \<not> Nullable \<lparr>FieldName = ''P'', Offset = 0, f_length = 0, f_fraction = 0,
       f_parameterOptions = 0x06, TC = 3, Mode = 1\<rparr> \<and>
   Nullable \<lparr>FieldName = ''P'', Offset = 0, f_length = 0, f_fraction = 0,
       f_parameterOptions = 0x02, TC = 3, Mode = 1\<rparr>"
  by (simp add: hasOption_def Nullable_def poOptional_def)

subsection \<open>Nested-query guard\<close>

lemma QueryContext_locking_open_cursor:
  assumes "\<not> mu l" "\<not> connMu l" "lockReason l \<noteq> lrNestedQuery"
  shows "QueryContext_locking True l = Done (None, l\<lparr>connMu := True, lockReason := lrNestedQuery\<rparr>)"
  using assms by (simp add: QueryContext_locking_def tryLock_def)

text \<open>
  C5. While the connection lock is held with the nested-query reason (and no other call is
  inside \<open>tryLock\<close>), every \<open>tryLock\<close> returns \<open>ErrNestedQuery\<close> and leaves the lock as it
  was; \<open>unlock\<close>, run when the cursor is closed, resets the reason to 0, after which
  \<open>tryLock\<close> succeeds again, with any reason.
\<close>

theorem nested_query_guard:
  assumes "lockReason l = lrNestedQuery" and "connMu l" and "\<not> mu l"
  shows "tryLock r l = Done (Some ErrNestedQuery, l) \<and>
         (\<exists>l'. unlock l = Done l' \<and> lockReason l' = 0 \<and> \<not> connMu l' \<and>
               tryLock r' l' = Done (None, l'\<lparr>connMu := True, lockReason := r'\<rparr>))"
  using assms by (simp add: tryLock_def unlock_def lrNestedQuery_def)

theorem nested_query_guard_witness:
  "QueryContext_locking True \<lparr>lockReason = 0, mu = False, connMu = False\<rparr> =
     Done (None, \<lparr>lockReason = 1, mu = False, connMu = True\<rparr>) \<and>
   tryLock 0 \<lparr>lockReason = 1, mu = False, connMu = True\<rparr> =
     Done (Some ErrNestedQuery, \<lparr>lockReason = 1, mu = False, connMu = True\<rparr>) \<and>
   unlock \<lparr>lockReason = 1, mu = False, connMu = True\<rparr> =
     Done \<lparr>lockReason = 0, mu = False, connMu = False\<rparr> \<and>
   tryLock 0 \<lparr>lockReason = 0, mu = False, connMu = False\<rparr> =
     Done (None, \<lparr>lockReason = 0, mu = False, connMu = True\<rparr>)"
  using nested_query_guard [of "\<lparr>lockReason = 1, mu = False, connMu = True\<rparr>" 0 0]
    QueryContext_locking_open_cursor [of "\<lparr>lockReason = 0, mu = False, connMu = False\<rparr>"]
  by (simp add: lrNestedQuery_def unlock_def)

subsection \<open>Cancellation\<close>

lemma cancelled_inv_cancel: "cancelled_inv (cancel c)"
  by (simp add: cancelled_inv_def cancel_def)

lemma cancelled_inv_step:
  assumes "cancelled_inv c"
  shows "cancelled_inv (db_step nc c op)"
proof (cases op)
  case (OpRead len)
  with assms show ?thesis by (simp add: cancelled_inv_def Read_def)
next
  case (OpWrite b)
  with assms show ?thesis by (simp add: cancelled_inv_def Write_def)
next
  case OpCancel
  then show ?thesis by (simp add: cancelled_inv_cancel)
next
  case OpClose
  with assms show ?thesis
    by (simp add: cancelled_inv_def close_def split: prod.splits)
qed

lemma cancelled_inv_run:
  assumes "cancelled_inv c"
  shows "cancelled_inv (db_run nc c ops)"
  using assms unfolding db_run_def
  by (induction ops arbitrary: c) (simp_all add: cancelled_inv_step)

text \<open>
  C6. Once \<open>cancel\<close> has run, whatever transport operations follow, every \<open>Read\<close> and
  \<open>Write\<close> returns \<open>ErrBadConn\<close> with no byte transferred and leaves the transport,
  socket included, exactly as it was (no method of the socket is called); the connection
  reports itself bad, and \<open>IsValid\<close>, once it has the lock, returns false.
\<close>

theorem cancel_makes_conn_bad:
  "Read nc len (db_run nc (cancel d) ops) = (([], Some ErrBadConn), db_run nc (cancel d) ops) \<and>
   Write nc b (db_run nc (cancel d) ops) = ((0, Some ErrBadConn), db_run nc (cancel d) ops) \<and>
   isBad (c\<lparr>c_dbConn := db_run nc (cancel d) ops\<rparr>) \<and>
   (\<not> connMu (c_connLock c) \<longrightarrow>
      (\<exists>c'. IsValid (c\<lparr>c_dbConn := db_run nc (cancel d) ops\<rparr>) = Done (False, c')))"
proof -
  have inv: "cancelled_inv (db_run nc (cancel d) ops)"
    by (rule cancelled_inv_run) (rule cancelled_inv_cancel)
  have bad: "isBad (c'\<lparr>c_dbConn := db_run nc (cancel d) ops\<rparr>)" for c' :: "'a conn"
    using inv by (simp add: isBad_def cancelled_inv_def)
  have rd: "Read nc len (db_run nc (cancel d) ops) = (([], Some ErrBadConn), db_run nc (cancel d) ops)"
    using inv by (simp add: Read_def cancelled_inv_def)
  have wr: "Write nc b (db_run nc (cancel d) ops) = ((0, Some ErrBadConn), db_run nc (cancel d) ops)"
    using inv by (simp add: Write_def cancelled_inv_def)
  have valid: "\<exists>c'. IsValid (c\<lparr>c_dbConn := db_run nc (cancel d) ops\<rparr>) = Done (False, c')"
    if "\<not> connMu (c_connLock c)"
    using that inv by (simp add: IsValid_def lock_def unlock_def isBad_def cancelled_inv_def)
  from rd wr bad valid show ?thesis by blast
qed

theorem cancel_makes_conn_bad_witness:
  "db_run countingSocket
     (cancel \<lparr>cancelled = 0, sock = 0, db_lastError = None, db_closed = False\<rparr>)
     [OpWrite [1, 2], OpRead 4] =
     \<lparr>cancelled = 1, sock = 0, db_lastError = Some errCancelled, db_closed = False\<rparr> \<and>
   Read countingSocket 4
     \<lparr>cancelled = 1, sock = 0, db_lastError = Some errCancelled, db_closed = False\<rparr> =
     (([], Some ErrBadConn),
      \<lparr>cancelled = 1, sock = 0, db_lastError = Some errCancelled, db_closed = False\<rparr>) \<and>
   IsValid \<lparr>c_connLock = \<lparr>lockReason = 0, mu = False, connMu = False\<rparr>,
            c_dbConn = \<lparr>cancelled = 1, sock = 0, db_lastError = Some errCancelled,
                        db_closed = False\<rparr>,
            c_lastError = None\<rparr> =
     Done (False,
           \<lparr>c_connLock = \<lparr>lockReason = 0, mu = False, connMu = False\<rparr>,
            c_dbConn = \<lparr>cancelled = 1, sock = 0, db_lastError = Some errCancelled,
                        db_closed = False\<rparr>,
            c_lastError = None\<rparr>)"
proof -
  have run: "db_run countingSocket
     (cancel \<lparr>cancelled = 0, sock = 0, db_lastError = None, db_closed = False\<rparr>)
     [OpWrite [1, 2], OpRead 4] =
     \<lparr>cancelled = 1, sock = (0::nat), db_lastError = Some errCancelled, db_closed = False\<rparr>"
    by (simp add: db_run_def cancel_def Read_def Write_def)
  show ?thesis
    using cancel_makes_conn_bad [of countingSocket 4
        "\<lparr>cancelled = 0, sock = 0, db_lastError = None, db_closed = False\<rparr>"
        "[OpWrite [1, 2], OpRead 4]" "[]"
        "\<lparr>c_connLock = \<lparr>lockReason = 0, mu = False, connMu = False\<rparr>,
          c_dbConn = \<lparr>cancelled = 0, sock = 0, db_lastError = None, db_closed = False\<rparr>,
          c_lastError = None\<rparr>"]
    by (simp add: run IsValid_def lock_def unlock_def isBad_def)
qed

subsection \<open>DSN parsing\<close>

lemma parseDSN_param_unsupported:
  assumes "k \<notin> recognisedDSNKeys"
  shows "parseDSN_param L k v dsn = Inl (parameterNotSupportedError k)"
  using assms by (simp add: parseDSN_param_def recognisedDSNKeys_def)

lemma parseDSN_query_append:
  "parseDSN_query L (pre @ post) dsn =
     (case parseDSN_query L pre dsn of
        Inl e \<Rightarrow> Inl e
      | Inr dsn' \<Rightarrow> parseDSN_query L post dsn')"
proof (induction pre arbitrary: dsn)
  case Nil
  show ?case by simp
next
  case (Cons kv pre)
  obtain k v where kv: "kv = (k, v)" by (cases kv)
  show ?case using Cons.IH kv by (simp split: sum.splits)
qed

lemma parseDSN_first_failure:
  assumes "s \<noteq> []" and "url_Parse L s = Inr u" and "Query u = pre @ (k, v) # post"
    and "parseDSN_query L pre (newDSN u) = Inr d" and "parseDSN_param L k v d = Inl e"
  shows "parseDSN L s = Inl e"
  using assms by (simp add: parseDSN_def parseDSN_query_append)

lemma parseDSN_query_first_failure:
  assumes "k \<in> fst ` set q" and "k \<notin> recognisedDSNKeys"
  shows "\<exists>pre k' v' post d e. q = pre @ (k', v') # post \<and> k \<notin> fst ` set pre \<and>
           parseDSN_query L pre dsn = Inr d \<and> parseDSN_param L k' v' d = Inl e"
  using assms
proof (induction q arbitrary: dsn)
  case Nil
  then show ?case by simp
next
  case (Cons kv q)
  obtain k0 v0 where kv: "kv = (k0, v0)" by (cases kv)
  show ?case
  proof (cases "parseDSN_param L k0 v0 dsn")
    case (Inl e)
    have "kv # q = [] @ (k0, v0) # q \<and> k \<notin> fst ` set [] \<and>
        parseDSN_query L [] dsn = Inr dsn \<and> parseDSN_param L k0 v0 dsn = Inl e"
      using kv Inl by simp
    then show ?thesis by blast
  next
    case (Inr dsn1)
    with Cons.prems(2) have ne: "k0 \<noteq> k"
      using parseDSN_param_unsupported [of k L v0 dsn] by auto
    with Cons.prems(1) kv have "k \<in> fst ` set q" by auto
    from Cons.IH [OF this Cons.prems(2), of dsn1]
    obtain pre k' v' post d e where q: "q = pre @ (k', v') # post" and nk: "k \<notin> fst ` set pre"
      and pq: "parseDSN_query L pre dsn1 = Inr d" and pp: "parseDSN_param L k' v' d = Inl e"
      by blast
    have "kv # q = ((k0, v0) # pre) @ (k', v') # post \<and> k \<notin> fst ` set ((k0, v0) # pre) \<and>
        parseDSN_query L ((k0, v0) # pre) dsn = Inr d \<and> parseDSN_param L k' v' d = Inl e"
      using kv q nk pq pp Inr ne by simp
    then show ?thesis by blast
  qed
qed

lemma parseDSN_param_count:
  assumes "k \<in> {DSNDefaultSchema, DSNTimeout, DSNPingInterval, DSNTLSServerName}"
    and "length v \<noteq> 1"
  shows "parseDSN_param L k v d =
           Inl \<lparr>pe_s = ''invalid number of parameters for '' @ k @ '' '' @
                         format_d L (int (length v)) @ '' - expected '' @ format_d L 1,
                 pe_err = None\<rparr>"
  using assms
  by (auto simp add: parseDSN_param_def invalidNumberOfParametersError_def DSNDefaultSchema_def
      DSNTimeout_def DSNPingInterval_def DSNTLSServerName_def)

lemma parseDSN_param_number:
  assumes "k \<in> {DSNTimeout, DSNPingInterval}" and "length v = 1" and "Atoi L (hd v) = None"
  shows "parseDSN_param L k v d =
           Inl \<lparr>pe_s = ''failed to parse '' @ k @ '': '' @ hd v, pe_err = None\<rparr>"
  using assms
  by (auto simp add: parseDSN_param_def parseError_def DSNDefaultSchema_def DSNTimeout_def
      DSNPingInterval_def)

lemma parseDSN_param_skipVerify_count:
  assumes "k = DSNTLSInsecureSkipVerify" and "length v > 1"
  shows "parseDSN_param L k v d =
           Inl \<lparr>pe_s = ''invalid number of parameters for '' @ k @ '' '' @
                         format_d L (int (length v)) @ '' - expected '' @ format_d L 0 @
                         '' - '' @ format_d L 1,
                 pe_err = None\<rparr>"
  using assms
  by (simp add: parseDSN_param_def invalidNumberOfParametersRangeError_def DSNDefaultSchema_def
      DSNTimeout_def DSNPingInterval_def DSNTLSServerName_def DSNTLSInsecureSkipVerify_def)

lemma parseDSN_param_skipVerify_bool:
  assumes "k = DSNTLSInsecureSkipVerify" and "length v = 1" and "hd v \<noteq> []"
    and "ParseBool L (hd v) = None"
  shows "parseDSN_param L k v d =
           Inl \<lparr>pe_s = ''failed to parse '' @ k @ '': '' @ hd v, pe_err = None\<rparr>"
  using assms
  by (simp add: parseDSN_param_def parseError_def DSNDefaultSchema_def
      DSNTimeout_def DSNPingInterval_def DSNTLSServerName_def DSNTLSInsecureSkipVerify_def)

lemma parseDSN_param_rootCA:
  assumes "k = DSNTLSRootCAFile" and "v = []"
  shows "parseDSN_param L k v d =
           Inl \<lparr>pe_s = ''invalid number of parameters for '' @ k @ '' '' @
                         format_d L 0 @ '' - expected at least '' @ format_d L 1,
                 pe_err = None\<rparr>"
  using assms
  by (simp add: parseDSN_param_def invalidNumberOfParametersMinError_def DSNDefaultSchema_def
      DSNTimeout_def DSNPingInterval_def DSNTLSServerName_def DSNTLSInsecureSkipVerify_def
      DSNTLSRootCAFile_def)

text \<open>
  C8 (as the code has it). \<open>parseDSN\<close> of the empty string returns the parse error with the
  message \<open>invalid parameter - DSN is empty\<close>. For a non-empty DSN that \<open>url.Parse\<close>
  accepts and whose parsed query (the map \<open>u.Query()\<close> returns) has a key outside the
  recognised set, \<open>parseDSN\<close> returns a parse error and no DSN: the error of the first entry,
  in the order the loop visits the map, that fails its check, which is the entry of that key
  or one visited before it. The error of the first failing entry is: for a key outside the
  recognised set, \<open>parameter <key> is not supported\<close>; for \<open>defaultSchema\<close>, \<open>timeout\<close>,
  \<open>pingInterval\<close> or \<open>TLSServerName\<close> with other than one value,
  \<open>invalid number of parameters for <key> <n> - expected 1\<close>; for \<open>timeout\<close> or
  \<open>pingInterval\<close> with one value that is not a number, \<open>failed to parse <key>: <value>\<close>;
  for \<open>TLSInsecureSkipVerify\<close> with more than one value,
  \<open>invalid number of parameters for <key> <n> - expected 0 - 1\<close>, and with one non-empty
  value that is not a boolean, \<open>failed to parse <key>: <value>\<close>; for \<open>TLSRootCAFile\<close>
  without a value, \<open>invalid number of parameters for <key> 0 - expected at least 1\<close>. The
  message of each of these errors is its text.
\<close>

theorem parseDSN_rejects:
  "parseDSN L [] = Inl \<lparr>pe_s = ''invalid parameter - DSN is empty'', pe_err = None\<rparr> \<and>
   ParseError_Error \<lparr>pe_s = m, pe_err = None\<rparr> = m \<and>
   (s \<noteq> [] \<and> url_Parse L s = Inr u \<and> k \<in> fst ` set (Query u) \<and> k \<notin> recognisedDSNKeys \<longrightarrow>
      (\<exists>pre k' v' post d e.
          Query u = pre @ (k', v') # post \<and> k \<notin> fst ` set pre \<and>
          parseDSN_query L pre (newDSN u) = Inr d \<and> parseDSN_param L k' v' d = Inl e \<and>
          parseDSN L s = Inl e)) \<and>
   (s \<noteq> [] \<and> url_Parse L s = Inr u \<and> Query u = pre @ (k, v) # post \<and>
    parseDSN_query L pre (newDSN u) = Inr d \<longrightarrow>
      (k \<notin> recognisedDSNKeys \<longrightarrow>
         parseDSN L s =
           Inl \<lparr>pe_s = ''parameter '' @ k @ '' is not supported'', pe_err = None\<rparr>) \<and>
      (k \<in> {DSNDefaultSchema, DSNTimeout, DSNPingInterval, DSNTLSServerName} \<and>
       length v \<noteq> 1 \<longrightarrow>
         parseDSN L s =
           Inl \<lparr>pe_s = ''invalid number of parameters for '' @ k @ '' '' @
                         format_d L (int (length v)) @ '' - expected '' @ format_d L 1,
                 pe_err = None\<rparr>) \<and>
      (k \<in> {DSNTimeout, DSNPingInterval} \<and> length v = 1 \<and> Atoi L (hd v) = None \<longrightarrow>
         parseDSN L s =
           Inl \<lparr>pe_s = ''failed to parse '' @ k @ '': '' @ hd v, pe_err = None\<rparr>) \<and>
      (k = DSNTLSInsecureSkipVerify \<and> length v > 1 \<longrightarrow>
         parseDSN L s =
           Inl \<lparr>pe_s = ''invalid number of parameters for '' @ k @ '' '' @
                         format_d L (int (length v)) @ '' - expected '' @ format_d L 0 @
                         '' - '' @ format_d L 1,
                 pe_err = None\<rparr>) \<and>
      (k = DSNTLSInsecureSkipVerify \<and> length v = 1 \<and> hd v \<noteq> [] \<and>
       ParseBool L (hd v) = None \<longrightarrow>
         parseDSN L s =
           Inl \<lparr>pe_s = ''failed to parse '' @ k @ '': '' @ hd v, pe_err = None\<rparr>) \<and>
      (k = DSNTLSRootCAFile \<and> v = [] \<longrightarrow>
         parseDSN L s =
           Inl \<lparr>pe_s = ''invalid number of parameters for '' @ k @ '' '' @
                         format_d L 0 @ '' - expected at least '' @ format_d L 1,
                 pe_err = None\<rparr>))"
proof (intro conjI impI)
  show "parseDSN L [] = Inl \<lparr>pe_s = ''invalid parameter - DSN is empty'', pe_err = None\<rparr>"
    by (simp add: parseDSN_def)
  show "ParseError_Error \<lparr>pe_s = m, pe_err = None\<rparr> = m"
    by (simp add: ParseError_Error_def)
next
  assume a: "s \<noteq> [] \<and> url_Parse L s = Inr u \<and> k \<in> fst ` set (Query u) \<and>
    k \<notin> recognisedDSNKeys"
  then obtain pre k' v' post d e where q: "Query u = pre @ (k', v') # post"
    and nk: "k \<notin> fst ` set pre" and pq: "parseDSN_query L pre (newDSN u) = Inr d"
    and pp: "parseDSN_param L k' v' d = Inl e"
    using parseDSN_query_first_failure [of k "Query u" L "newDSN u"] by blast
  have "parseDSN L s = Inl e"
    using a q pq pp by (intro parseDSN_first_failure [of s L u pre k' v' post d e]) simp_all
  with q nk pq pp show "\<exists>pre k' v' post d e.
          Query u = pre @ (k', v') # post \<and> k \<notin> fst ` set pre \<and>
          parseDSN_query L pre (newDSN u) = Inr d \<and> parseDSN_param L k' v' d = Inl e \<and>
          parseDSN L s = Inl e"
    by blast
next
  assume a: "s \<noteq> [] \<and> url_Parse L s = Inr u \<and> Query u = pre @ (k, v) # post \<and>
    parseDSN_query L pre (newDSN u) = Inr d"
  note ff = parseDSN_first_failure [of s L u pre k v post d]
  {
    assume "k \<notin> recognisedDSNKeys"
    then show "parseDSN L s =
        Inl \<lparr>pe_s = ''parameter '' @ k @ '' is not supported'', pe_err = None\<rparr>"
      using a by (intro ff) (simp_all add: parseDSN_param_unsupported parameterNotSupportedError_def)
  next
    assume "k \<in> {DSNDefaultSchema, DSNTimeout, DSNPingInterval, DSNTLSServerName} \<and>
       length v \<noteq> 1"
    then show "parseDSN L s =
        Inl \<lparr>pe_s = ''invalid number of parameters for '' @ k @ '' '' @
                      format_d L (int (length v)) @ '' - expected '' @ format_d L 1,
              pe_err = None\<rparr>"
      using a by (intro ff) (simp_all add: parseDSN_param_count)
  next
    assume "k \<in> {DSNTimeout, DSNPingInterval} \<and> length v = 1 \<and> Atoi L (hd v) = None"
    then show "parseDSN L s =
        Inl \<lparr>pe_s = ''failed to parse '' @ k @ '': '' @ hd v, pe_err = None\<rparr>"
      using a by (intro ff) (simp_all add: parseDSN_param_number)
  next
    assume "k = DSNTLSInsecureSkipVerify \<and> length v > 1"
    then show "parseDSN L s =
        Inl \<lparr>pe_s = ''invalid number of parameters for '' @ k @ '' '' @
                      format_d L (int (length v)) @ '' - expected '' @ format_d L 0 @
                      '' - '' @ format_d L 1,
              pe_err = None\<rparr>"
      using a by (intro ff) (simp_all add: parseDSN_param_skipVerify_count)
  next
    assume "k = DSNTLSInsecureSkipVerify \<and> length v = 1 \<and> hd v \<noteq> [] \<and>
       ParseBool L (hd v) = None"
    then show "parseDSN L s =
        Inl \<lparr>pe_s = ''failed to parse '' @ k @ '': '' @ hd v, pe_err = None\<rparr>"
      using a by (intro ff) (simp_all add: parseDSN_param_skipVerify_bool)
  next
    assume "k = DSNTLSRootCAFile \<and> v = []"
    then show "parseDSN L s =
        Inl \<lparr>pe_s = ''invalid number of parameters for '' @ k @ '' '' @
                      format_d L 0 @ '' - expected at least '' @ format_d L 1,
              pe_err = None\<rparr>"
      using a by (intro ff) (simp_all add: parseDSN_param_rootCA)
  }
qed

lemma foo_not_recognised: "''foo'' \<notin> recognisedDSNKeys"
  by (simp add: recognisedDSNKeys_def DSNDefaultSchema_def DSNTimeout_def DSNPingInterval_def
      DSNTLSServerName_def DSNTLSInsecureSkipVerify_def DSNTLSRootCAFile_def)

theorem parseDSN_rejects_witness:
  "parseDSN exampleLib ''hdb://h?timeout=60&foo=1'' =
     Inl \<lparr>pe_s = ''parameter foo is not supported'', pe_err = None\<rparr> \<and>
   parseDSN exampleLib ''hdb://h?timeout=x&foo=1'' =
     Inl \<lparr>pe_s = ''failed to parse timeout: x'', pe_err = None\<rparr>"
proof -
  let ?u1 = "\<lparr>Host = ''h'', User = None,
               Query = [(''timeout'', [''60'']), (''foo'', [''1''])]\<rparr>"
  let ?u2 = "\<lparr>Host = ''h'', User = None,
               Query = [(''timeout'', [''x'']), (''foo'', [''1''])]\<rparr>"
  have u1: "url_Parse exampleLib ''hdb://h?timeout=60&foo=1'' = Inr ?u1"
    by (simp add: exampleLib_def)
  have u2: "url_Parse exampleLib ''hdb://h?timeout=x&foo=1'' = Inr ?u2"
    by (simp add: exampleLib_def)
  have pre1: "parseDSN_query exampleLib [(''timeout'', [''60''])] (newDSN ?u1) =
      Inr ((newDSN ?u1)\<lparr>dsn_timeout := 60 * second\<rparr>)"
    by (simp add: parseDSN_param_def exampleLib_def DSNDefaultSchema_def DSNTimeout_def)
  have ax: "Atoi exampleLib ''x'' = None"
    by (simp add: exampleLib_def)
  have w1: "parseDSN exampleLib ''hdb://h?timeout=60&foo=1'' =
     Inl \<lparr>pe_s = ''parameter foo is not supported'', pe_err = None\<rparr>"
    using parseDSN_rejects [of exampleLib _ "''hdb://h?timeout=60&foo=1''" ?u1 "''foo''"
        "[(''timeout'', [''60''])]" "[''1'']" "[]" "(newDSN ?u1)\<lparr>dsn_timeout := 60 * second\<rparr>"]
      u1 pre1 foo_not_recognised
    by simp
  have w2: "parseDSN exampleLib ''hdb://h?timeout=x&foo=1'' =
     Inl \<lparr>pe_s = ''failed to parse timeout: x'', pe_err = None\<rparr>"
    using parseDSN_rejects [of exampleLib _ "''hdb://h?timeout=x&foo=1''" ?u2 "''timeout''"
        "[]" "[''x'']" "[(''foo'', [''1''])]" "newDSN ?u2"]
      u2 ax
    by (simp add: DSNTimeout_def)
  from w1 w2 show ?thesis by simp
qed

text \<open>
  A key that stands in the DSN string need not be a key of the parsed query: the pair of
  \<open>hdb://h?foo=%zz\<close> is left out of the map, and \<open>parseDSN\<close> returns a DSN.
\<close>

lemma parseDSN_dropped_pair:
  "parseDSN exampleLib ''hdb://h?foo=%zz'' =
     Inr \<lparr>dsn_host = ''h'', dsn_username = [], dsn_password = [], dsn_defaultSchema = [],
          dsn_timeout = 0, dsn_pingInterval = 0, dsn_tls = None\<rparr>"
  by (simp add: parseDSN_def exampleLib_def newDSN_def)

text \<open>
  C8 as stated fails: on \<open>hdb://h?timeout=x&foo=1\<close>, when the loop visits \<open>timeout\<close> before
  \<open>foo\<close>, the error is that of \<open>timeout\<close>, not \<open>parameter foo is not supported\<close>.
\<close>

theorem parseDSN_unsupported_counterexample:
  "''foo'' \<in> fst ` set [(''timeout'', [''x'']), (''foo'', [''1''])] \<and>
   ''foo'' \<notin> recognisedDSNKeys \<and>
   parseDSN exampleLib ''hdb://h?timeout=x&foo=1'' =
     Inl \<lparr>pe_s = ''failed to parse timeout: x'', pe_err = None\<rparr> \<and>
   ParseError_Error \<lparr>pe_s = ''failed to parse timeout: x'', pe_err = None\<rparr> \<noteq>
     ''parameter foo is not supported''"
  by (simp add: foo_not_recognised parseDSN_def exampleLib_def newDSN_def parseDSN_param_def
      DSNDefaultSchema_def DSNTimeout_def parseError_def ParseError_Error_def)

subsection \<open>Bulk execution\<close>

lemma execBulk_rows_total_unchanged:
  assumes "execBulk_rows E nvargs commit numColumns numRows i lastFrom tot w = (Return (Some r, None), w')"
  shows "r = RowsAffected tot"
  using assms
proof (induction E nvargs commit numColumns numRows i lastFrom tot w
    rule: execBulk_rows.induct)
  case (1 E nvargs commit numColumns numRows i lastFrom tot w)
  note unf = execBulk_rows.simps [of E nvargs commit numColumns numRows i lastFrom tot w]
  show ?case
  proof (cases "i < numRows")
    case False
    with "1.prems" show ?thesis by (simp add: unf)
  next
    case True
    obtain hasNext err w1 where f:
      "conn_fetchFirstLobChunk E (slice nvargs (i * numColumns) (i * numColumns + numColumns)) w
         = ((hasNext, err), w1)"
      by (metis prod.exhaust)
    show ?thesis
    proof (cases err)
      case (Some e)
      with True f "1.prems" show ?thesis by (simp add: unf Let_def)
    next
      case None
      show ?thesis
      proof (cases "hasNext \<or> i = numRows - 1")
        case False
        then have "execBulk_rows E nvargs commit numColumns numRows (i + 1) lastFrom tot w1
            = (Return (Some r, None), w')"
          using True f None "1.prems" by (simp add: unf Let_def)
        with "1.IH"(2) [OF True refl refl f [symmetric] refl None False] show ?thesis
          by simp
      next
        case call: True
        obtain res w2 where e:
          "e_exec E (slice nvargs lastFrom (i * numColumns + numColumns)) True commit w1 = (res, w2)"
          by (metis prod.exhaust)
        show ?thesis
        proof (cases res)
          case (Inl a)
          with True f None call e "1.prems" show ?thesis by (simp add: unf Let_def)
        next
          case (Inr r')
          obtain n err' where ra: "Result_RowsAffected r' = (n, err')"
            by (metis prod.exhaust)
          have keep: "(if err' \<noteq> None then tot + n else tot) = tot"
            using ra by (cases r') auto
          have "execBulk_rows E nvargs commit numColumns numRows (i + 1)
                  (i * numColumns + numColumns) tot w2 = (Return (Some r, None), w')"
            using True f None call e Inr ra keep "1.prems" by (simp add: unf Let_def)
          with "1.IH"(1) [OF True refl refl f [symmetric] refl None call e [symmetric] Inr
              ra [symmetric]] keep
          show ?thesis by simp
        qed
      qed
    qed
  qed
qed

text \<open>
  C1 (the code departs from the specification in \<open>_execBulk\<close>). A statement with one LOB column is
  executed with two rows, the first of which needs piecewise writing: \<open>_execBulk\<close> sends two
  sub-packages, each affecting one row, and returns \<open>RowsAffected 0\<close>, not their sum 2. The
  count of a sub-package is added only when \<open>r.RowsAffected()\<close> returns an error, which it
  does only for \<open>ResultNoRows\<close>, with the count 0. When a sub-package fails, \<open>r\<close> is \<open>nil\<close>
  and \<open>r.RowsAffected()\<close> panics: no partial sum is returned.
\<close>

theorem conn_execBulk_loses_counts:
  "conn_execBulk countingServer \<lparr>parameterFields = [blobField]\<rparr>
     [LobInDescr 3, LobInDescr 1] True [] =
     (Return (Some (RowsAffected 0), None), [[3], [1]]) \<and>
   conn_execBulk failingServer \<lparr>parameterFields = [blobField]\<rparr>
     [LobInDescr 1, LobInDescr 1] True [] = (Panic, [])"
  by (simp add: conn_execBulk_def failingServer_def countingServer_def blobField_def
      execBulk_rows.simps conn_fetchFirstLobChunk_def slice_def Let_def)

theorem conn_execBulk_loses_counts_witness:
  "fst (conn_execBulk countingServer \<lparr>parameterFields = [blobField]\<rparr>
          [LobInDescr 3, LobInDescr 1] True []) = Return (Some (RowsAffected 0), None) \<and>
   fst (conn_execBulk failingServer \<lparr>parameterFields = [blobField]\<rparr>
          [LobInDescr 1, LobInDescr 1] True []) = Panic"
  using conn_execBulk_loses_counts by simp

text \<open>
  The part of C1 about \<open>execMany\<close> holds, for a bulk size of at least 1 and no unflushed rows:
  \<open>execMany\<close> runs the packages of the specification in order and returns the sum of the counts of
  the packages that succeeded, with the error of the first that failed.
\<close>

lemma ceil_div:
  assumes "0 < (b::nat)"
  shows "n div b + (if n mod b \<noteq> 0 then 1 else 0) = (n + b - 1) div b"
proof -
  let ?q = "n div b" and ?r = "n mod b"
  have r: "?r < b" using assms by simp
  have "n + b - 1 = ?q * b + (?r + b - 1)"
  proof -
    have "n = ?q * b + ?r" by simp
    then have "n + b - 1 = (?q * b + ?r) + b - 1" by simp
    also have "\<dots> = ?q * b + (?r + b - 1)" using assms by simp
    finally show ?thesis .
  qed
  then have "(n + b - 1) div b = ?q + (?r + b - 1) div b"
    using assms by (metis div_mult_self3 less_numeral_extra(3) add.commute)
  moreover have "(?r + b - 1) div b = (if ?r \<noteq> 0 then 1 else 0)"
  proof (cases "?r = 0")
    case True
    then show ?thesis using assms by simp
  next
    case False
    have "(?r + b - 1) div b = 1"
      by (rule div_nat_eqI) (use False r in simp_all)
    with False show ?thesis by simp
  qed
  ultimately show ?thesis by simp
qed

lemma execMany_loop_run_packages:
  "execMany_loop variant s_exec b numPack p tot w =
     (case run_packages variant s_exec
             (map (\<lambda>p. (p * b, min (p * b + b) (numRow variant))) [p..<numPack]) w of
        ((ns, err), w') \<Rightarrow> ((RowsAffected (tot + sum_list ns), err), w'))"
proof (induction variant s_exec b numPack p tot w rule: execMany_loop.induct)
  case (1 variant s_exec b numPack p tot w)
  note unf = execMany_loop.simps [of variant s_exec b numPack p tot w]
  show ?case
  proof (cases "p < numPack")
    case False
    then show ?thesis by (simp add: unf)
  next
    case True
    then have up: "[p..<numPack] = p # [p + 1..<numPack]" by (simp add: upt_conv_Cons)
    show ?thesis
    proof (cases "fill variant (p * b) (min (p * b + b) (numRow variant))")
      case (Inl e)
      with True show ?thesis by (simp add: unf up Let_def)
    next
      case (Inr nvargs)
      obtain res w1 where e: "s_exec nvargs w = (res, w1)" by (metis prod.exhaust)
      show ?thesis
      proof (cases res)
        case (Inl err)
        with True Inr e show ?thesis by (simp add: unf up Let_def)
      next
        case r: (Inr r)
        show ?thesis
        proof (cases r)
          case ResultNoRows
          with True Inr e r show ?thesis by (simp add: unf up Let_def)
        next
          case (RowsAffected n)
          have ra: "Result_RowsAffected r = (n, None)" using RowsAffected by simp
          have ih: "execMany_loop variant s_exec b numPack (p + 1) (tot + n) w1 =
              (case run_packages variant s_exec
                      (map (\<lambda>p. (p * b, min (p * b + b) (numRow variant))) [p + 1..<numPack]) w1 of
                 ((ns, err), w') \<Rightarrow> ((RowsAffected (tot + n + sum_list ns), err), w'))"
            by (rule "1.IH" [OF True refl refl Inr e [symmetric] r ra [symmetric] refl])
          show ?thesis
            using True Inr e r RowsAffected ih
            by (simp add: unf up Let_def add.assoc split: prod.splits)
        qed
      qed
    qed
  qed
qed


lemma stmt_execMany_packages:
  assumes "0 < bulkSize"
  shows "stmt_execMany 0 bulkSize variant s_exec w =
     (case run_packages variant s_exec (packages (numRow variant) bulkSize) w of
        ((ns, err), w') \<Rightarrow> (Return (RowsAffected (sum_list ns), err), w'))"
proof -
  have np: "(if numRow variant mod bulkSize \<noteq> 0 then numRow variant div bulkSize + 1
             else numRow variant div bulkSize) = (numRow variant + bulkSize - 1) div bulkSize"
    using ceil_div [OF assms, of "numRow variant"] by (simp split: if_splits)
  show ?thesis
    unfolding stmt_execMany_def Let_def np
    using assms
    by (simp add: execMany_loop_run_packages packages_def split: prod.splits)
qed

lemma length_packages: "length (packages n bulkSize) = (n + bulkSize - 1) div bulkSize"
  by (simp add: packages_def)

lemma packages_bounds:
  assumes "0 < bulkSize" and "(a, e) \<in> set (packages n bulkSize)"
  shows "a < e \<and> e \<le> n \<and> e - a \<le> bulkSize"
proof -
  from assms(2) obtain p where p: "p < (n + bulkSize - 1) div bulkSize"
    and a: "a = p * bulkSize" and e: "e = min (p * bulkSize + bulkSize) n"
    by (auto simp add: packages_def)
  from p have "Suc p \<le> (n + bulkSize - 1) div bulkSize" by simp
  then have "Suc p * bulkSize \<le> n + bulkSize - 1"
    using assms(1) by (simp add: less_eq_div_iff_mult_less_eq)
  then have "p * bulkSize < n" using assms(1) by simp
  with a e assms(1) show ?thesis by auto
qed

lemma packages_prefix:
  "concat (map (\<lambda>(a, e). [a..<e]) (map (\<lambda>p. (p * b, min (p * b + b) n)) [0..<k]))
     = [0..<min (k * b) n]"
proof (induction k)
  case 0
  show ?case by simp
next
  case (Suc k)
  have "[0..<min (k * b) n] @ [k * b..<min (k * b + b) n] = [0..<min (Suc k * b) n]"
  proof (cases "k * b \<le> n")
    case True
    have "k * b \<le> min (k * b + b) n" using True by simp
    then obtain d where d: "min (k * b + b) n = k * b + d"
      using le_Suc_ex by blast
    have "[0..<k * b] @ [k * b..<min (k * b + b) n] = [0..<min (k * b + b) n]"
      unfolding d by (rule upt_add_eq_append [symmetric]) simp
    with True show ?thesis by (simp add: min_def add.commute)
  next
    case False
    then show ?thesis by (simp add: min_def)
  qed
  with Suc show ?case by simp
qed

lemma packages_cover:
  assumes "0 < bulkSize"
  shows "concat (map (\<lambda>(a, e). [a..<e]) (packages n bulkSize)) = [0..<n]"
proof -
  let ?k = "(n + bulkSize - 1) div bulkSize"
  have "n + bulkSize - 1 = ?k * bulkSize + (n + bulkSize - 1) mod bulkSize" by simp
  moreover have "(n + bulkSize - 1) mod bulkSize < bulkSize" using assms by simp
  ultimately have "n \<le> ?k * bulkSize" by linarith
  then show ?thesis
    using packages_prefix [of bulkSize n ?k] by (simp add: packages_def min_def)
qed

subsection \<open>LOB download\<close>

text \<open>
  The character counter is as the specification has it: an encoding of three bytes (or fewer) counts
  as one character, one of six bytes as two, and a chunk that ends inside an encoding is an
  error, which the download returns.
\<close>

lemma countChars_cesu8_rune:
  assumes "b \<noteq> []" and "fullRune b" and "0 < decodeRune b" and "decodeRune b \<le> length b"
  shows "countChars_cesu8 fullRune decodeRune b numChars =
           countChars_cesu8 fullRune decodeRune (drop (decodeRune b) b)
             (if decodeRune b = 6 then numChars + 2 else numChars + 1)"
  using assms
  by (simp add: countChars_cesu8.simps [of fullRune decodeRune b numChars] Let_def CESUMax_def
      add.commute)

lemma countChars_cesu8_incomplete:
  assumes "b \<noteq> []" and "\<not> fullRune b"
  shows "countChars_cesu8 fullRune decodeRune b numChars = Some (Return (Inl IncompleteRunesError))"
  using assms by (simp add: countChars_cesu8.simps [of fullRune decodeRune b numChars])

lemma decodeLobs_loop_incomplete_rune:
  assumes "exchange E (lobRequest\<lparr>rq_Ofs := rq_Ofs lobRequest + ofs,
              rq_ChunkSize := chunkSize lobChunkSize (lo_NumChar descr) ofs\<rparr>) w
             = (Inr (Some reply), w1)"
    and "rp_ID reply = rq_ID lobRequest"
    and "wr (rp_B reply) w1 = (None, w2)"
    and "rp_B reply \<noteq> []" and "\<not> fullRune (rp_B reply)"
  shows "decodeLobs_loop (Suc n) E wr (\<lambda>b. countChars_cesu8 fullRune decodeRune b 0)
           lobChunkSize descr lobRequest lobReply ofs False w
         = Some (Return (Some IncompleteRunesError), w2)"
  using assms by (simp add: Let_def countChars_cesu8_incomplete)

text \<open>
  C2 (the code departs from the specification). A byte-based LOB of 300 bytes is downloaded with
  \<open>lobChunkSize = 128\<close>; the descriptor carries 100 bytes. The first request has the offset
  100 and the chunk size \<open>min 128 (300 - 100) = 128\<close>. The second request has the cumulative
  offset 228 and again the chunk size 128, where the specification gives \<open>min 128 (300 - 228) = 72\<close>:
  the chunk size is computed from the count of the last chunk (\<open>300 - 128\<close>), not from the
  offset.
\<close>

theorem conn_decodeLobs_chunkSize:
  "conn_decodeLobs (Suc (Suc (Suc 0))) lobServer 128 blobDescr ([], 0) =
     Some (Return None,
           ([\<lparr>rq_ID = 7, rq_Ofs = 100, rq_ChunkSize = 128\<rparr>,
             \<lparr>rq_ID = 7, rq_Ofs = 228, rq_ChunkSize = 128\<rparr>], 300)) \<and>
   min 128 (lo_NumChar blobDescr - 228) = 72"
  by (simp add: conn_decodeLobs_def conn_decodeLobs_inner_def lobServer_def blobDescr_def
      countChars_bytes_def chunkSize_def Let_def)

subsection \<open>Connection attribute setters\<close>

text \<open>
  C7. The setters saturate instead of rejecting: \<open>setTimeout\<close> stores \<open>max value 0\<close>,
  \<open>setBulkSize\<close> stores the value clamped to \<open>[1, 2^31 - 1]\<close>, \<open>setFetchSize\<close> stores
  \<open>max value 1\<close>, \<open>setLobChunkSize\<close> stores the value clamped to \<open>[128, 16384]\<close>,
  \<open>setDfv\<close> stores the value if it is a supported level and 8 otherwise. A setter has no
  error result: each is a total function from attributes to attributes.
\<close>

theorem setters_saturate:
  "a_timeout (setTimeout t a) = max t 0 \<and>
   a_bulkSize (setBulkSize b a) = min (max b 1) (2 ^ 31 - 1) \<and>
   a_fetchSize (setFetchSize f a) = max f 1 \<and>
   a_lobChunkSize (setLobChunkSize l a) = min (max l 128) 16384 \<and>
   a_dfv (setDfv IsSupportedDfv d a) = (if IsSupportedDfv d then d else 8)"
  by (simp add: setTimeout_def setBulkSize_def setFetchSize_def setLobChunkSize_def
      setDfv_def minTimeout_def minBulkSize_def maxBulkSize_def MaxNumArg_def MaxInt32_def
      minFetchSize_def minLobChunkSize_def maxLobChunkSize_def defaultDfv_def Let_def)

end
